theory Spec2Isabelle
  imports Main "HOL-Library.Word" "HOL-Library.Sublist"
begin

unbundle bit_operations_syntax

section \<open>Data model of device.go\<close>

subsection \<open>Values of the Go standard library that device.go stores and compares\<close>

text \<open>
  Go strings and byte slices are sequences of bytes; both are \<open>string\<close> here.
  A slice that may be \<open>nil\<close> is an \<open>option\<close> (\<open>None\<close> is \<open>nil\<close>).
  An \<open>error\<close> value is known by its message; a Go \<open>error\<close> result is an
  \<open>error option\<close>, \<open>None\<close> being \<open>nil\<close>.
\<close>

type_synonym bytes = string

datatype error = Error string | Panic string

text \<open>
  \<open>time.Time\<close> is the struct \<open>{wall uint64; ext int64; loc *Location}\<close>; Go's \<open>==\<close>
  on structs compares the fields, so does HOL's \<open>=\<close> on the record. \<open>loc\<close> is a pointer:
  \<open>None\<close> is \<open>nil\<close>. The zero value \<open>time.Time{}\<close> has all three fields zero.
\<close>

record Time =
  wall :: "64 word"
  ext :: "64 word"
  loc :: "nat option"

definition Time_zero :: Time where
  "Time_zero = \<lparr>wall = 0, ext = 0, loc = None\<rparr>"

subsection \<open>DeviceFileInfo\<close>

text \<open>\<open>os.FileMode\<close> is a \<open>uint32\<close>.\<close>

type_synonym FileMode = "32 word"

record DeviceFileInfo =
  Name :: string
  Mode :: FileMode
  Size :: "32 word"
  LastModified :: Time

text \<open>The composite literal \<open>DeviceFileInfo{}\<close>: every field has its zero value.\<close>

definition DeviceFileInfo_zero :: DeviceFileInfo where
  "DeviceFileInfo_zero = \<lparr>Name = [], Mode = 0, Size = 0, LastModified = Time_zero\<rparr>"

definition IsDir :: "DeviceFileInfo \<Rightarrow> bool" where
  "IsDir info \<longleftrightarrow> (Mode info AND push_bit 14 1) = push_bit 14 1"

definition DefaultFileMode :: FileMode where
  "DefaultFileMode = 436"  \<comment> \<open>\<open>os.FileMode(0664)\<close>, octal\<close>

subsection \<open>DeviceState\<close>

type_synonym DeviceState = string

definition StateUnknown :: DeviceState where
  "StateUnknown = ''UNKNOWN''"

definition StateOnline :: DeviceState where
  "StateOnline = ''online''"

definition StateOffline :: DeviceState where
  "StateOffline = ''offline''"

definition StateDisconnected :: DeviceState where
  "StateDisconnected = ''disconnected''"

definition deviceStateStrings :: "string \<rightharpoonup> DeviceState" where
  "deviceStateStrings = map_of
     [('''', StateDisconnected),
      (''offline'', StateOffline),
      (''device'', StateOnline)]"

definition deviceStateConv :: "string \<Rightarrow> DeviceState" where
  "deviceStateConv k =
     (case deviceStateStrings k of None \<Rightarrow> StateUnknown | Some deviceState \<Rightarrow> deviceState)"


subsection \<open>Formatting with \<open>fmt.Sprintf\<close>\<close>

text \<open>The verb \<open>%d\<close>: decimal digits, with a leading minus sign for a negative value.\<close>

fun fmt_nat :: "nat \<Rightarrow> string" where
  "fmt_nat n =
     (if n < 10 then [''0123456789'' ! n]
      else fmt_nat (n div 10) @ [''0123456789'' ! (n mod 10)])"

declare fmt_nat.simps [simp del]

definition fmt_d :: "int \<Rightarrow> string" where
  "fmt_d i = (if i < 0 then ''-'' @ fmt_nat (nat (- i)) else fmt_nat (nat i))"

subsection \<open>The calls device.go makes on Client, Transport and syncTransport\<close>

text \<open>
  The types \<open>Client\<close>, \<open>Transport\<close> and \<open>syncTransport\<close> are declared outside
  device.go. Each of their methods that device.go calls is an event; a run of a Device
  method is the list of events it performs, in order. A \<open>*Transport\<close> obtained from
  \<open>NewTransport\<close> is named by the position of that call in the trace, so two transports
  never share a name; the \<open>syncTransport\<close> made from a transport carries its name.
  An \<open>io.Reader\<close> or \<open>io.Writer\<close> argument is named by a number.
\<close>

datatype event =
    NewTransport string
  | TpSend nat string
  | TpVerifyResponse nat
  | TpReadBytesAll nat
  | TpClose nat
  | TpCreateSyncTransport nat
  | SyncSend nat string string
  | SyncReadDirectoryEntry nat
  | SyncSendStream nat nat
  | SyncSendStatus nat string "32 word"
  | SyncVerifyStatus nat
  | SyncWriteStream nat nat
  | SyncClose nat
  | ClientExecuteCommand string "bool list"

text \<open>
  What a call returns is decided by the peer (the adb server, the device, the network):
  a function of everything done so far, the call itself included as the last event.
  \<open>reply_err\<close> answers the calls whose only result is an \<open>error\<close>.
\<close>

record peer =
  reply_err :: "event list \<Rightarrow> error option"
  reply_dent :: "event list \<Rightarrow> DeviceFileInfo \<times> error option"
  reply_bytes :: "event list \<Rightarrow> bytes option \<times> error option"
  reply_string :: "event list \<Rightarrow> string \<times> error option"

subsection \<open>Device\<close>

text \<open>Of \<open>Client\<close>, device.go reads the fields \<open>host\<close> (with \<open>%s\<close>) and \<open>port\<close> (with \<open>%d\<close>).\<close>

record Client =
  host :: string
  port :: int

record Device =
  adbClient :: Client
  serial :: string
  attrs :: "string \<rightharpoonup> string"

definition Client_executeCommand ::
  "peer \<Rightarrow> string \<Rightarrow> bool list \<Rightarrow> event list \<Rightarrow> event list \<times> string \<times> error option" where
  "Client_executeCommand p command onlyVerifyResponse tr =
     (let tr' = tr @ [ClientExecuteCommand command onlyVerifyResponse]
      in (tr', reply_string p tr'))"

subsection \<open>Host-side operations\<close>

definition State :: "peer \<Rightarrow> Device \<Rightarrow> event list \<Rightarrow> event list \<times> DeviceState \<times> error option" where
  "State p d tr =
     (case Client_executeCommand p (''host-serial:'' @ serial d @ '':get-state'') [] tr of
        (tr', resp, err) \<Rightarrow> (tr', deviceStateConv resp, err))"

definition Forward ::
  "peer \<Rightarrow> Device \<Rightarrow> int \<Rightarrow> int \<Rightarrow> bool list \<Rightarrow> event list \<Rightarrow> event list \<times> error option" where
  "Forward p d localPort remotePort noRebind tr =
     (let local = ''tcp:'' @ fmt_d localPort;
          remote = ''tcp:'' @ fmt_d remotePort;
          command =
            (if length noRebind \<noteq> 0 \<and> hd noRebind
             then ''host-serial:'' @ serial d @ '':forward:norebind:'' @ local @ '';'' @ remote
             else ''host-serial:'' @ serial d @ '':forward:'' @ local @ '';'' @ remote)
      in case Client_executeCommand p command [True] tr of (tr', _, err) \<Rightarrow> (tr', err))"

definition RawForward ::
  "peer \<Rightarrow> Device \<Rightarrow> string \<Rightarrow> string \<Rightarrow> bool list \<Rightarrow> event list \<Rightarrow> event list \<times> error option" where
  "RawForward p d local remote noRebind tr =
     (let command =
            (if length noRebind \<noteq> 0 \<and> hd noRebind
             then ''host-serial:'' @ serial d @ '':forward:norebind:'' @ local @ '';'' @ remote
             else ''host-serial:'' @ serial d @ '':forward:'' @ local @ '';'' @ remote)
      in case Client_executeCommand p command [True] tr of (tr', _, err) \<Rightarrow> (tr', err))"

definition ForwardKill ::
  "peer \<Rightarrow> Device \<Rightarrow> int \<Rightarrow> event list \<Rightarrow> event list \<times> error option" where
  "ForwardKill p d localPort tr =
     (let local = ''tcp:'' @ fmt_d localPort
      in case Client_executeCommand p (''host-serial:'' @ serial d @ '':killforward:'' @ local) [True] tr of
           (tr', _, err) \<Rightarrow> (tr', err))"


subsection \<open>\<open>time.Time.Unix\<close>\<close>

text \<open>
  \<open>Unix()\<close> of the standard library: the seconds are in \<open>wall\<close> when its top bit
  (\<open>hasMonotonic\<close>) is set, in \<open>ext\<close> otherwise; \<open>int64\<close> arithmetic wraps.
\<close>

definition wallToInternal :: "64 word" where
  "wallToInternal = (1884 * 365 + 1884 div 4 - 1884 div 100 + 1884 div 400) * 86400"

definition unixToInternal :: "64 word" where
  "unixToInternal = (1969 * 365 + 1969 div 4 - 1969 div 100 + 1969 div 400) * 86400"

definition Time_sec :: "Time \<Rightarrow> 64 word" where
  "Time_sec t =
     (if wall t AND push_bit 63 1 \<noteq> 0
      then wallToInternal + drop_bit 31 (push_bit 1 (wall t))
      else ext t)"

definition Unix :: "Time \<Rightarrow> 64 word" where
  "Unix t = Time_sec t - unixToInternal"

subsection \<open>Device-targeted operations\<close>

definition CreateDeviceTransport ::
  "peer \<Rightarrow> Device \<Rightarrow> event list \<Rightarrow> event list \<times> nat option \<times> error option" where
  "CreateDeviceTransport p d tr =
     (let tp = length tr;
          tr1 = tr @ [NewTransport (host (adbClient d) @ '':'' @ fmt_d (port (adbClient d)))]
      in case reply_err p tr1 of
           Some e \<Rightarrow> (tr1, None, Some e)
         | None \<Rightarrow>
             (let tr2 = tr1 @ [TpSend tp (''host:transport:'' @ serial d)]
              in case reply_err p tr2 of
                   Some e \<Rightarrow> (tr2, None, Some e)
                 | None \<Rightarrow>
                     (let tr3 = tr2 @ [TpVerifyResponse tp]
                      in (tr3, Some tp, reply_err p tr3))))"

text \<open>
  A method called on a \<open>nil\<close> \<open>*Transport\<close> panics. No caller below reaches that:
  \<open>CreateDeviceTransport\<close> returns a transport whenever it returns no error.
\<close>

definition nil_dereference :: error where
  "nil_dereference = Panic ''invalid memory address or nil pointer dereference''"

text \<open>\<open>executeCommand\<close> from the first statement after \<open>defer tp.Close()\<close>.\<close>

definition executeCommand_tp ::
  "peer \<Rightarrow> nat \<Rightarrow> string \<Rightarrow> bool list \<Rightarrow> event list \<Rightarrow> event list \<times> bytes option \<times> error option" where
  "executeCommand_tp p tp command onlyVerifyResponse tr =
     (let tr1 = tr @ [TpSend tp command]
      in case reply_err p tr1 of
           Some e \<Rightarrow> (tr1, None, Some e)
         | None \<Rightarrow>
             (let tr2 = tr1 @ [TpVerifyResponse tp]
              in case reply_err p tr2 of
                   Some e \<Rightarrow> (tr2, None, Some e)
                 | None \<Rightarrow>
                     if hd onlyVerifyResponse then (tr2, None, None)
                     else (let tr3 = tr2 @ [TpReadBytesAll tp] in (tr3, reply_bytes p tr3))))"

definition executeCommand ::
  "peer \<Rightarrow> Device \<Rightarrow> string \<Rightarrow> bool list \<Rightarrow> event list \<Rightarrow> event list \<times> bytes option \<times> error option" where
  "executeCommand p d command onlyVerifyResponse tr =
     (let onlyVerifyResponse = (if length onlyVerifyResponse = 0 then [False] else onlyVerifyResponse)
      in case CreateDeviceTransport p d tr of
           (tr1, tp, err) \<Rightarrow>
             if err \<noteq> None then (tr1, None, err)
             else (case tp of
                     None \<Rightarrow> (tr1, None, Some nil_dereference)
                   | Some tp \<Rightarrow>
                       (case executeCommand_tp p tp command onlyVerifyResponse tr1 of
                          (tr2, raw, err) \<Rightarrow> (tr2 @ [TpClose tp], raw, err))))"

text \<open>
  The loop of \<open>List\<close>. It runs for as long as the peer delivers entries that are not
  all-zero, so it need not return: \<open>None\<close> is a run that never ends.
\<close>

partial_function (option) List_loop ::
  "peer \<Rightarrow> nat \<Rightarrow> event list \<Rightarrow> DeviceFileInfo list
     \<Rightarrow> (event list \<times> DeviceFileInfo list \<times> error option) option" where
  "List_loop p sync tr devFileInfos =
     (let tr1 = tr @ [SyncReadDirectoryEntry sync]
      in case reply_dent p tr1 of
           (entry, err) \<Rightarrow>
             if err \<noteq> None then Some (tr1, devFileInfos, err)
             else if entry = DeviceFileInfo_zero then Some (tr1, devFileInfos, err)
             else List_loop p sync tr1 (devFileInfos @ [entry]))"

text \<open>\<open>List\<close> from the first statement after \<open>defer sync.Close()\<close>.\<close>

definition List_sync ::
  "peer \<Rightarrow> nat \<Rightarrow> string \<Rightarrow> event list
     \<Rightarrow> (event list \<times> DeviceFileInfo list option \<times> error option) option" where
  "List_sync p sync remotePath tr =
     (let tr1 = tr @ [SyncSend sync ''LIST'' remotePath]
      in case reply_err p tr1 of
           Some e \<Rightarrow> Some (tr1, None, Some e)
         | None \<Rightarrow>
             (case List_loop p sync tr1 [] of
                None \<Rightarrow> None
              | Some (tr2, devFileInfos, err) \<Rightarrow> Some (tr2, Some devFileInfos, err)))"

text \<open>\<open>List\<close> from the first statement after \<open>defer tp.Close()\<close>.\<close>

definition List_tp ::
  "peer \<Rightarrow> nat \<Rightarrow> string \<Rightarrow> event list
     \<Rightarrow> (event list \<times> DeviceFileInfo list option \<times> error option) option" where
  "List_tp p tp remotePath tr =
     (let tr1 = tr @ [TpCreateSyncTransport tp]
      in case reply_err p tr1 of
           Some e \<Rightarrow> Some (tr1, None, Some e)
         | None \<Rightarrow>
             (case List_sync p tp remotePath tr1 of
                None \<Rightarrow> None
              | Some (tr2, devFileInfos, err) \<Rightarrow> Some (tr2 @ [SyncClose tp], devFileInfos, err)))"

definition List ::
  "peer \<Rightarrow> Device \<Rightarrow> string \<Rightarrow> event list
     \<Rightarrow> (event list \<times> DeviceFileInfo list option \<times> error option) option" where
  "List p d remotePath tr =
     (case CreateDeviceTransport p d tr of
        (tr1, tp, err) \<Rightarrow>
          if err \<noteq> None then Some (tr1, None, err)
          else (case tp of
                  None \<Rightarrow> Some (tr1, None, Some nil_dereference)
                | Some tp \<Rightarrow>
                    (case List_tp p tp remotePath tr1 of
                       None \<Rightarrow> None
                     | Some (tr2, devFileInfos, err) \<Rightarrow> Some (tr2 @ [TpClose tp], devFileInfos, err))))"

text \<open>\<open>Push\<close> from the first statement after \<open>defer sync.Close()\<close>.\<close>

definition Push_sync ::
  "peer \<Rightarrow> nat \<Rightarrow> nat \<Rightarrow> string \<Rightarrow> Time \<Rightarrow> FileMode list \<Rightarrow> event list
     \<Rightarrow> event list \<times> error option" where
  "Push_sync p sync source remotePath modification mode tr =
     (let data = remotePath @ '','' @ fmt_nat (unat (hd mode));
          tr1 = tr @ [SyncSend sync ''SEND'' data]
      in case reply_err p tr1 of
           Some e \<Rightarrow> (tr1, Some e)
         | None \<Rightarrow>
             (let tr2 = tr1 @ [SyncSendStream sync source]
              in case reply_err p tr2 of
                   Some e \<Rightarrow> (tr2, Some e)
                 | None \<Rightarrow>
                     (let tr3 = tr2 @ [SyncSendStatus sync ''DONE'' (ucast (Unix modification))]
                      in case reply_err p tr3 of
                           Some e \<Rightarrow> (tr3, Some e)
                         | None \<Rightarrow>
                             (let tr4 = tr3 @ [SyncVerifyStatus sync]
                              in (tr4, reply_err p tr4)))))"

text \<open>\<open>Push\<close> from the first statement after \<open>defer tp.Close()\<close>.\<close>

definition Push_tp ::
  "peer \<Rightarrow> nat \<Rightarrow> nat \<Rightarrow> string \<Rightarrow> Time \<Rightarrow> FileMode list \<Rightarrow> event list
     \<Rightarrow> event list \<times> error option" where
  "Push_tp p tp source remotePath modification mode tr =
     (let tr1 = tr @ [TpCreateSyncTransport tp]
      in case reply_err p tr1 of
           Some e \<Rightarrow> (tr1, Some e)
         | None \<Rightarrow>
             (case Push_sync p tp source remotePath modification mode tr1 of
                (tr2, err) \<Rightarrow> (tr2 @ [SyncClose tp], err)))"

definition Push ::
  "peer \<Rightarrow> Device \<Rightarrow> nat \<Rightarrow> string \<Rightarrow> Time \<Rightarrow> FileMode list \<Rightarrow> event list
     \<Rightarrow> event list \<times> error option" where
  "Push p d source remotePath modification mode tr =
     (let mode = (if length mode = 0 then [DefaultFileMode] else mode)
      in case CreateDeviceTransport p d tr of
           (tr1, tp, err) \<Rightarrow>
             if err \<noteq> None then (tr1, err)
             else (case tp of
                     None \<Rightarrow> (tr1, Some nil_dereference)
                   | Some tp \<Rightarrow>
                       (case Push_tp p tp source remotePath modification mode tr1 of
                          (tr2, err) \<Rightarrow> (tr2 @ [TpClose tp], err))))"

text \<open>\<open>Pull\<close> from the first statement after \<open>defer tp.Close()\<close>.\<close>

definition Pull_tp ::
  "peer \<Rightarrow> nat \<Rightarrow> string \<Rightarrow> nat \<Rightarrow> event list \<Rightarrow> event list \<times> error option" where
  "Pull_tp p tp remotePath dest tr =
     (let tr1 = tr @ [TpCreateSyncTransport tp]
      in case reply_err p tr1 of
           Some e \<Rightarrow> (tr1, Some e)
         | None \<Rightarrow>
             (let tr2 = tr1 @ [SyncSend tp ''RECV'' remotePath]
              in case reply_err p tr2 of
                   Some e \<Rightarrow> (tr2 @ [SyncClose tp], Some e)
                 | None \<Rightarrow>
                     (let tr3 = tr2 @ [SyncWriteStream tp dest]
                      in (tr3 @ [SyncClose tp], reply_err p tr3))))"

definition Pull ::
  "peer \<Rightarrow> Device \<Rightarrow> string \<Rightarrow> nat \<Rightarrow> event list \<Rightarrow> event list \<times> error option" where
  "Pull p d remotePath dest tr =
     (case CreateDeviceTransport p d tr of
        (tr1, tp, err) \<Rightarrow>
          if err \<noteq> None then (tr1, err)
          else (case tp of
                  None \<Rightarrow> (tr1, Some nil_dereference)
                | Some tp \<Rightarrow>
                    (case Pull_tp p tp remotePath dest tr1 of
                       (tr2, err) \<Rightarrow> (tr2 @ [TpClose tp], err))))"

text \<open>
  \<open>ShellStream\<close> returns the transport, a \<open>bufio.Scanner\<close> over the socket of a
  transport (named by that transport), and the error.
\<close>

definition ShellStream ::
  "peer \<Rightarrow> Device \<Rightarrow> string \<Rightarrow> event list
     \<Rightarrow> event list \<times> nat option \<times> nat option \<times> error option" where
  "ShellStream p d cmd tr =
     (case CreateDeviceTransport p d tr of
        (tr1, tp, err) \<Rightarrow>
          if err \<noteq> None then (tr1, None, None, err)
          else (case tp of
                  None \<Rightarrow> (tr1, None, None, Some nil_dereference)
                | Some tp \<Rightarrow>
                    (let tr2 = tr1 @ [TpSend tp (''shell:'' @ cmd)]
                     in case reply_err p tr2 of
                          Some e \<Rightarrow> (tr2 @ [TpClose tp], None, None, Some e)
                        | None \<Rightarrow>
                            (let tr3 = tr2 @ [TpVerifyResponse tp]
                             in case reply_err p tr3 of
                                  Some e \<Rightarrow> (tr3 @ [TpClose tp], None, None, Some e)
                                | None \<Rightarrow> (tr3, Some tp, Some tp, None)))))"

text \<open>\<open>AdbDaemonPort\<close> is a constant declared outside device.go: a parameter here.\<close>

definition EnableAdbOverTCP ::
  "int \<Rightarrow> peer \<Rightarrow> Device \<Rightarrow> int list \<Rightarrow> event list \<Rightarrow> event list \<times> error option" where
  "EnableAdbOverTCP AdbDaemonPort p d port' tr =
     (let port' = (if length port' = 0 then [AdbDaemonPort] else port')
      in case executeCommand p d (''tcpip:'' @ fmt_d (hd port')) [True] tr of
           (tr', _, err) \<Rightarrow> (tr', err))"


subsection \<open>\<open>strings.Join\<close> and \<open>strings.TrimSpace\<close>\<close>

fun Join :: "string list \<Rightarrow> string \<Rightarrow> string" where
  "Join [] sep = []"
| "Join [x] sep = x"
| "Join (x # y # ys) sep = x @ sep @ Join (y # ys) sep"

text \<open>
  A \<open>rune\<close> is an \<open>int32\<close> holding a code point; bytes and runes are read as
  integers here. \<open>utf8.DecodeRuneInString\<close> returns the
  rune at the head of the string and its width in bytes; bytes that are no valid UTF-8
  give \<open>RuneError\<close> with width 1. \<open>utf8_first\<close> is the table \<open>first\<close> with
  \<open>acceptRanges\<close>: for a leading byte, the size of the encoding and the range of
  the second byte; \<open>None\<close> for a byte that starts no multi-byte encoding.
\<close>

type_synonym rune = int

definition RuneError :: rune where
  "RuneError = 0xFFFD"

definition RuneSelf :: int where
  "RuneSelf = 0x80"

abbreviation byte :: "char \<Rightarrow> int" where
  "byte c \<equiv> of_char c"

definition utf8_first :: "int \<Rightarrow> (nat \<times> int \<times> int) option" where
  "utf8_first b =
     (if b < 0xC2 then None
      else if b \<le> 0xDF then Some (2, 0x80, 0xBF)
      else if b = 0xE0 then Some (3, 0xA0, 0xBF)
      else if b \<le> 0xEC then Some (3, 0x80, 0xBF)
      else if b = 0xED then Some (3, 0x80, 0x9F)
      else if b \<le> 0xEF then Some (3, 0x80, 0xBF)
      else if b = 0xF0 then Some (4, 0x90, 0xBF)
      else if b \<le> 0xF3 then Some (4, 0x80, 0xBF)
      else if b = 0xF4 then Some (4, 0x80, 0x8F)
      else None)"

definition DecodeRuneInString :: "string \<Rightarrow> rune \<times> nat" where
  "DecodeRuneInString s =
     (if length s < 1 then (RuneError, 0)
      else let s0 = byte (s ! 0) in
        if s0 < RuneSelf then (s0, 1)
        else case utf8_first s0 of
          None \<Rightarrow> (RuneError, 1)
        | Some (sz, lo, hi) \<Rightarrow>
            if length s < sz then (RuneError, 1)
            else let s1 = byte (s ! 1) in
              if s1 < lo \<or> hi < s1 then (RuneError, 1)
              else if sz \<le> 2 then (push_bit 6 (s0 AND 0x1F) OR (s1 AND 0x3F), 2)
              else let s2 = byte (s ! 2) in
                if s2 < 0x80 \<or> 0xBF < s2 then (RuneError, 1)
                else if sz \<le> 3
                  then (push_bit 12 (s0 AND 0x0F) OR push_bit 6 (s1 AND 0x3F) OR (s2 AND 0x3F), 3)
                else let s3 = byte (s ! 3) in
                  if s3 < 0x80 \<or> 0xBF < s3 then (RuneError, 1)
                  else (push_bit 18 (s0 AND 0x07) OR push_bit 12 (s1 AND 0x3F)
                          OR push_bit 6 (s2 AND 0x3F) OR (s3 AND 0x3F), 4))"

definition RuneStart :: "int \<Rightarrow> bool" where
  "RuneStart b \<longleftrightarrow> b AND 0xC0 \<noteq> 0x80"

text \<open>The backward scan of \<open>utf8.DecodeLastRuneInString\<close> for the start of the last rune.\<close>

function DecodeLastRune_scan :: "string \<Rightarrow> int \<Rightarrow> int \<Rightarrow> int" where
  "DecodeLastRune_scan s start lim =
     (if start \<ge> lim
      then (if RuneStart (byte (s ! nat start)) then start
            else DecodeLastRune_scan s (start - 1) lim)
      else start)"
  by pat_completeness auto
termination
  by (relation "measure (\<lambda>(s, start, lim). nat (start + 1 - lim))") auto

declare DecodeLastRune_scan.simps [simp del]

definition DecodeLastRuneInString :: "string \<Rightarrow> rune \<times> nat" where
  "DecodeLastRuneInString s =
     (let end' = int (length s) in
      if end' = 0 then (RuneError, 0)
      else let start = end' - 1; r = byte (s ! nat start) in
        if r < RuneSelf then (r, 1)
        else let lim = (if end' - 4 < 0 then 0 else end' - 4);
                 start = DecodeLastRune_scan s (start - 1) lim;
                 start = (if start < 0 then 0 else start)
             in case DecodeRuneInString (drop (nat start) s) of
                  (r, sz) \<Rightarrow> if start + int sz \<noteq> end' then (RuneError, 1) else (r, sz))"

text \<open>\<open>unicode.IsSpace\<close>: the Latin-1 cases, then the table \<open>White_Space\<close>.\<close>

definition IsSpace :: "rune \<Rightarrow> bool" where
  "IsSpace r =
     (if r \<le> 0xFF then r \<in> {0x09, 0x0A, 0x0B, 0x0C, 0x0D, 0x20, 0x85, 0xA0}
      else r = 0x1680 \<or> (0x2000 \<le> r \<and> r \<le> 0x200A) \<or> r = 0x2028 \<or> r = 0x2029
           \<or> r = 0x202F \<or> r = 0x205F \<or> r = 0x3000)"

text \<open>The table \<open>asciiSpace\<close> of package strings.\<close>

definition asciiSpace :: "int \<Rightarrow> bool" where
  "asciiSpace c \<longleftrightarrow> c \<in> {0x09, 0x0A, 0x0B, 0x0C, 0x0D, 0x20}"


text \<open>Every decoding step consumes at least one byte of a string that has one.\<close>

lemma DecodeRuneInString_width:
  "s \<noteq> [] \<Longrightarrow> 1 \<le> snd (DecodeRuneInString s)"
  by (simp add: DecodeRuneInString_def Let_def split: option.split prod.split)

lemma DecodeLastRune_scan_le:
  "DecodeLastRune_scan s start lim \<le> start"
proof (induction s start lim rule: DecodeLastRune_scan.induct)
  case (1 s start lim)
  show ?case
  proof (cases "start \<ge> lim \<and> \<not> RuneStart (byte (s ! nat start))")
    case True
    with "1" have "DecodeLastRune_scan s (start - 1) lim \<le> start - 1"
      by simp
    with True show ?thesis
      by (subst DecodeLastRune_scan.simps) simp
  next
    case False
    then show ?thesis
      by (subst DecodeLastRune_scan.simps) auto
  qed
qed

lemma DecodeLastRuneInString_width:
  assumes "s \<noteq> []"
  shows "1 \<le> snd (DecodeLastRuneInString s)"
proof (cases "byte (s ! nat (int (length s) - 1)) < RuneSelf")
  case True
  with assms show ?thesis
    by (simp add: DecodeLastRuneInString_def Let_def)
next
  case False
  define st where
    "st = DecodeLastRune_scan s (int (length s) - 1 - 1)
            (if int (length s) - 4 < 0 then 0 else int (length s) - 4)"
  define st' where "st' = (if st < 0 then 0 else st)"
  have eq: "DecodeLastRuneInString s =
      (case DecodeRuneInString (drop (nat st') s) of
         (r, sz) \<Rightarrow> if st' + int sz \<noteq> int (length s) then (RuneError, 1) else (r, sz))"
    using assms False by (simp add: DecodeLastRuneInString_def Let_def st'_def st_def)
  have "st \<le> int (length s) - 1 - 1"
    unfolding st_def by (rule DecodeLastRune_scan_le)
  with assms have "nat st' < length s"
    by (cases s) (auto simp: st'_def)
  then have "drop (nat st') s \<noteq> []"
    by simp
  then have "1 \<le> snd (DecodeRuneInString (drop (nat st') s))"
    by (rule DecodeRuneInString_width)
  then show ?thesis
    unfolding eq by (auto split: prod.split)
qed

text \<open>\<open>indexFunc\<close>: the loop \<open>for i, r := range s\<close>, from byte offset \<open>i\<close>.\<close>

function indexFunc_loop :: "string \<Rightarrow> (rune \<Rightarrow> bool) \<Rightarrow> bool \<Rightarrow> nat \<Rightarrow> int" where
  "indexFunc_loop s f truth i =
     (if i < length s
      then (case DecodeRuneInString (drop i s) of
              (r, w) \<Rightarrow> if f r = truth then int i else indexFunc_loop s f truth (i + w))
      else - 1)"
  by pat_completeness auto
termination
  apply (relation "measure (\<lambda>(s, f, truth, i). length s - i)")
   apply simp
  subgoal for s f truth i
    using DecodeRuneInString_width [of "drop i s"]
    by (cases "DecodeRuneInString (drop i s)") auto
  done

declare indexFunc_loop.simps [simp del]

definition indexFunc :: "string \<Rightarrow> (rune \<Rightarrow> bool) \<Rightarrow> bool \<Rightarrow> int" where
  "indexFunc s f truth = indexFunc_loop s f truth 0"

text \<open>
  \<open>lastIndexFunc\<close>: the loop \<open>for i := len(s); i > 0;\<close> over the prefix \<open>s[0:i]\<close>
  that is still to be examined.
\<close>

function lastIndexFunc_loop :: "string \<Rightarrow> (rune \<Rightarrow> bool) \<Rightarrow> bool \<Rightarrow> int" where
  "lastIndexFunc_loop s f truth =
     (if length s > 0
      then (case DecodeLastRuneInString s of
              (r, sz) \<Rightarrow>
                (let i = int (length s) - int sz
                 in if f r = truth then i else lastIndexFunc_loop (take (nat i) s) f truth))
      else - 1)"
  by pat_completeness auto
termination
  apply (relation "measure (\<lambda>(s, f, truth). length s)")
   apply simp
  subgoal for s f truth
    using DecodeLastRuneInString_width [of s]
    by (cases "DecodeLastRuneInString s"; cases s) auto
  done

declare lastIndexFunc_loop.simps [simp del]

definition lastIndexFunc :: "string \<Rightarrow> (rune \<Rightarrow> bool) \<Rightarrow> bool \<Rightarrow> int" where
  "lastIndexFunc s f truth = lastIndexFunc_loop s f truth"

definition TrimLeftFunc :: "string \<Rightarrow> (rune \<Rightarrow> bool) \<Rightarrow> string" where
  "TrimLeftFunc s f =
     (let i = indexFunc s f False
      in if i = - 1 then [] else drop (nat i) s)"

definition TrimRightFunc :: "string \<Rightarrow> (rune \<Rightarrow> bool) \<Rightarrow> string" where
  "TrimRightFunc s f =
     (let i = lastIndexFunc s f False;
          i = (if i \<ge> 0 \<and> byte (s ! nat i) \<ge> RuneSelf
               then i + int (snd (DecodeRuneInString (drop (nat i) s)))
               else i + 1)
      in take (nat i) s)"

definition TrimFunc :: "string \<Rightarrow> (rune \<Rightarrow> bool) \<Rightarrow> string" where
  "TrimFunc s f = TrimRightFunc (TrimLeftFunc s f) f"

text \<open>
  \<open>TrimSpace\<close> has a fast path for ASCII. Its first loop advances \<open>start\<close> over
  the string: \<open>Inl\<close> is the result it returns at a byte that is not ASCII, \<open>Inr\<close> is
  \<open>s[start:]\<close> when the loop ends. Its second loop moves \<open>stop\<close> back from the end
  of \<open>s[start:]\<close>, read here in reverse.
\<close>

fun TrimSpace_start :: "string \<Rightarrow> string + string" where
  "TrimSpace_start [] = Inr []"
| "TrimSpace_start (c # cs) =
     (if byte c \<ge> RuneSelf then Inl (TrimFunc (c # cs) IsSpace)
      else if \<not> asciiSpace (byte c) then Inr (c # cs)
      else TrimSpace_start cs)"

fun TrimSpace_stop :: "string \<Rightarrow> string" where
  "TrimSpace_stop [] = []"
| "TrimSpace_stop (c # cs) =
     (if byte c \<ge> RuneSelf then TrimRightFunc (rev (c # cs)) IsSpace
      else if \<not> asciiSpace (byte c) then rev (c # cs)
      else TrimSpace_stop cs)"

definition TrimSpace :: "string \<Rightarrow> string" where
  "TrimSpace s =
     (case TrimSpace_start s of
        Inl r \<Rightarrow> r
      | Inr rest \<Rightarrow> TrimSpace_stop (rev rest))"

subsection \<open>Shell commands\<close>

definition RunShellCommandWithBytes ::
  "peer \<Rightarrow> Device \<Rightarrow> string \<Rightarrow> string list \<Rightarrow> event list
     \<Rightarrow> event list \<times> bytes option \<times> error option" where
  "RunShellCommandWithBytes p d cmd args tr =
     (let cmd = (if length args > 0 then cmd @ '' '' @ Join args '' '' else cmd)
      in if TrimSpace cmd = []
         then (tr, None, Some (Error ''adb shell: command cannot be empty''))
         else executeCommand p d (''shell:'' @ cmd) [] tr)"

text \<open>\<open>string(raw)\<close> of a \<open>nil\<close> slice is the empty string.\<close>

definition RunShellCommand ::
  "peer \<Rightarrow> Device \<Rightarrow> string \<Rightarrow> string list \<Rightarrow> event list
     \<Rightarrow> event list \<times> string \<times> error option" where
  "RunShellCommand p d cmd args tr =
     (case RunShellCommandWithBytes p d cmd args tr of
        (tr', raw, err) \<Rightarrow> (tr', (case raw of None \<Rightarrow> [] | Some b \<Rightarrow> b), err))"

subsection \<open>Strings of whitespace\<close>

text \<open>
  \<open>utf8.EncodeRune\<close>, the bytes of a rune in a Go string: one to four bytes, and the
  three bytes of \<open>RuneError\<close> for a value that is no code point. A string
  \<open>concat (map EncodeRune rs)\<close> consists of the characters \<open>rs\<close>.
\<close>

definition EncodeRune :: "rune \<Rightarrow> string" where
  "EncodeRune r =
     (if 0 \<le> r \<and> r \<le> 0x7F then [char_of r]
      else if 0 \<le> r \<and> r \<le> 0x7FF
        then [char_of (0xC0 OR drop_bit 6 r), char_of (0x80 OR (r AND 0x3F))]
      else if r < 0 \<or> 0x10FFFF < r \<or> (0xD800 \<le> r \<and> r \<le> 0xDFFF)
        then [CHR 0xEF, CHR 0xBF, CHR 0xBD]
      else if r \<le> 0xFFFF
        then [char_of (0xE0 OR drop_bit 12 r), char_of (0x80 OR (drop_bit 6 r AND 0x3F)),
              char_of (0x80 OR (r AND 0x3F))]
      else [char_of (0xF0 OR drop_bit 18 r), char_of (0x80 OR (drop_bit 12 r AND 0x3F)),
            char_of (0x80 OR (drop_bit 6 r AND 0x3F)), char_of (0x80 OR (r AND 0x3F))])"

subsection \<open>Vocabulary for traces\<close>

text \<open>
  The three calls that select the device: open a transport to the client's address,
  send \<open>host:transport:<serial>\<close> on it, verify the response.
\<close>

definition handshake :: "Device \<Rightarrow> nat \<Rightarrow> event list" where
  "handshake d tp =
     [NewTransport (host (adbClient d) @ '':'' @ fmt_d (port (adbClient d))),
      TpSend tp (''host:transport:'' @ serial d),
      TpVerifyResponse tp]"

text \<open>
  \<open>run_calls\<close> performs error-returning calls in order and stops after the first one
  that fails; \<open>succeed\<close> says that none of them fails.
\<close>

fun run_calls :: "peer \<Rightarrow> event list \<Rightarrow> event list \<Rightarrow> event list \<times> error option" where
  "run_calls p tr [] = (tr, None)"
| "run_calls p tr (e # es) =
     (case reply_err p (tr @ [e]) of
        Some x \<Rightarrow> (tr @ [e], Some x)
      | None \<Rightarrow> run_calls p (tr @ [e]) es)"

fun succeed :: "peer \<Rightarrow> event list \<Rightarrow> event list \<Rightarrow> bool" where
  "succeed p tr [] = True"
| "succeed p tr (e # es) = (reply_err p (tr @ [e]) = None \<and> succeed p (tr @ [e]) es)"

text \<open>
  A run from trace \<open>tr\<close> that ends with trace \<open>tr'\<close> and error \<open>err'\<close> begins with
  the handshake when the handshake calls, up to the first that fails, come first in
  what it adds to \<open>tr\<close>, and when a failed handshake is the end of the run and its
  error the result.
\<close>

definition begins_with_handshake ::
  "peer \<Rightarrow> Device \<Rightarrow> event list \<Rightarrow> event list \<Rightarrow> error option \<Rightarrow> bool" where
  "begins_with_handshake p d tr tr' err' \<longleftrightarrow>
     (case run_calls p tr (handshake d (length tr)) of
        (tr1, err) \<Rightarrow> prefix tr1 tr' \<and> (err \<noteq> None \<longrightarrow> tr' = tr1 \<and> err' = err))"

text \<open>Whether some event sends the command \<open>host:transport:<serial>\<close>.\<close>

fun is_transport_command :: "Device \<Rightarrow> event \<Rightarrow> bool" where
  "is_transport_command d (TpSend tp c) = (c = ''host:transport:'' @ serial d)"
| "is_transport_command d (ClientExecuteCommand c flags) = (c = ''host:transport:'' @ serial d)"
| "is_transport_command d _ = False"

text \<open>Peers and a device to run the operations on.\<close>

definition emulator :: Device where
  "emulator =
     \<lparr>adbClient = \<lparr>host = ''localhost'', port = 5037\<rparr>, serial = ''emulator-5554'',
      attrs = Map.empty\<rparr>"

definition entry_a :: DeviceFileInfo where
  "entry_a = \<lparr>Name = ''a.txt'', Mode = 0x81A4, Size = 3, LastModified = Time_zero\<rparr>"

definition entry_b :: DeviceFileInfo where
  "entry_b = \<lparr>Name = ''b'', Mode = 0x41ED, Size = 4096, LastModified = Time_zero\<rparr>"

text \<open>
  \<open>peer_upto n e\<close>: the first \<open>n\<close> calls succeed and every later one fails with
  \<open>e\<close>. A directory read is answered by its position in the trace, the sixth call of
  a run being the first read of \<open>List\<close>: two entries, the all-zero entry, and
  further entries behind it.
\<close>

definition peer_upto :: "nat \<Rightarrow> error \<Rightarrow> peer" where
  "peer_upto n e =
     \<lparr>reply_err = (\<lambda>tr. if length tr \<le> n then None else Some e),
      reply_dent = (\<lambda>tr. if length tr > n then (DeviceFileInfo_zero, Some e)
                          else if length tr = 6 then (entry_a, None)
                          else if length tr = 7 then (entry_b, None)
                          else if length tr = 8 then (DeviceFileInfo_zero, None)
                          else (entry_b, None)),
      reply_bytes = (\<lambda>tr. if length tr > n then (None, Some e) else (Some ''ok'', None)),
      reply_string = (\<lambda>tr. if length tr > n then ([], Some e) else (''device'', None))\<rparr>"

section \<open>Properties\<close>

subsection \<open>Directory entries\<close>

lemma and_bit_14:
  "(m AND push_bit 14 1) = push_bit 14 1 \<longleftrightarrow> bit m 14" for m :: "32 word"
proof
  assume "(m AND push_bit 14 1) = push_bit 14 1"
  then have "m AND push_bit 14 1 \<noteq> 0"
    by simp
  then show "bit m 14"
    by (simp only: bit_iff_and_push_bit_not_eq_0 [symmetric])
next
  assume "bit m 14"
  show "(m AND push_bit 14 1) = push_bit 14 1"
  proof (intro bit_eqI)
    fix n
    assume "possible_bit TYPE(32 word) n"
    have "n = 14" if "14 \<le> n" and "n - 14 = 0"
      using that by simp
    with \<open>bit m 14\<close> show "bit (m AND push_bit 14 1) n = bit (push_bit 14 1 :: 32 word) n"
      by (auto simp only: bit_and_iff bit_push_bit_iff bit_1_iff)
  qed
qed

text \<open>
  Claim C6. For every DeviceFileInfo, \<open>IsDir\<close> returns true if and only if bit 14
  (the bit of value \<open>1<<14\<close>) of its \<open>Mode\<close> field is set.
\<close>

theorem IsDir_iff_bit_14:
  "IsDir info \<longleftrightarrow> bit (Mode info) 14"
  unfolding IsDir_def by (rule and_bit_14)

text \<open>A directory (mode 040755) and a regular file (mode 0100644).\<close>

theorem IsDir_iff_bit_14_witness:
  "IsDir \<lparr>Name = ''sdcard'', Mode = 0x41ED, Size = 4096, LastModified = Time_zero\<rparr>
   \<and> bit (0x41ED :: 32 word) 14
   \<and> \<not> IsDir \<lparr>Name = ''build.prop'', Mode = 0x81A4, Size = 120, LastModified = Time_zero\<rparr>
   \<and> \<not> bit (0x81A4 :: 32 word) 14"
  using IsDir_iff_bit_14 [of "\<lparr>Name = ''sdcard'', Mode = 0x41ED, Size = 4096, LastModified = Time_zero\<rparr>"]
    IsDir_iff_bit_14 [of "\<lparr>Name = ''build.prop'', Mode = 0x81A4, Size = 120, LastModified = Time_zero\<rparr>"]
  by (simp add: IsDir_def)

subsection \<open>Device state\<close>

lemma deviceStateConv_cases:
  "deviceStateConv k =
     (if k = ''device'' then StateOnline
      else if k = '''' then StateDisconnected
      else if k = ''offline'' then StateOffline
      else StateUnknown)"
  by (simp add: deviceStateConv_def deviceStateStrings_def)

text \<open>
  Claim C10. \<open>State\<close> maps the server's reply by a fixed total mapping: "device" to
  online, the empty string to disconnected, "offline" to offline, every other string to
  UNKNOWN. The mapping is applied to the reply whatever error the command returned with
  it, and that error is returned unchanged beside the state.
\<close>

theorem State_maps_reply:
  "deviceStateConv ''device'' = StateOnline
   \<and> deviceStateConv '''' = StateDisconnected
   \<and> deviceStateConv ''offline'' = StateOffline
   \<and> (\<forall>k. k \<noteq> ''device'' \<and> k \<noteq> '''' \<and> k \<noteq> ''offline'' \<longrightarrow> deviceStateConv k = StateUnknown)
   \<and> (\<forall>resp err.
        reply_string p (tr @ [ClientExecuteCommand (''host-serial:'' @ serial d @ '':get-state'') []])
          = (resp, err)
        \<longrightarrow> State p d tr
            = (tr @ [ClientExecuteCommand (''host-serial:'' @ serial d @ '':get-state'') []],
               deviceStateConv resp, err))"
  by (simp add: deviceStateConv_cases State_def Client_executeCommand_def)

text \<open>A reply that is in no table entry, and a reply that comes with an error.\<close>

theorem State_maps_reply_witness:
  "deviceStateConv ''unauthorized'' = ''UNKNOWN''
   \<and> State \<lparr>reply_err = \<lambda>_. None, reply_dent = \<lambda>_. (DeviceFileInfo_zero, None),
             reply_bytes = \<lambda>_. (None, None),
             reply_string = \<lambda>_. (''offline'', Some (Error ''EOF''))\<rparr>
        \<lparr>adbClient = \<lparr>host = ''localhost'', port = 5037\<rparr>, serial = ''emulator-5554'',
          attrs = Map.empty\<rparr> []
      = ([ClientExecuteCommand ''host-serial:emulator-5554:get-state'' []],
         ''offline'', Some (Error ''EOF''))"
  using State_maps_reply [of
      "\<lparr>reply_err = \<lambda>_. None, reply_dent = \<lambda>_. (DeviceFileInfo_zero, None),
        reply_bytes = \<lambda>_. (None, None),
        reply_string = \<lambda>_. (''offline'', Some (Error ''EOF''))\<rparr>"
      "[]"
      "\<lparr>adbClient = \<lparr>host = ''localhost'', port = 5037\<rparr>, serial = ''emulator-5554'',
        attrs = Map.empty\<rparr>"]
  by (simp add: StateUnknown_def StateOffline_def)

subsection \<open>Host-side operations\<close>

text \<open>
  Claim C7. \<open>State\<close>, \<open>Forward\<close>, \<open>RawForward\<close> and \<open>ForwardKill\<close> each perform one
  call, \<open>executeCommand\<close> of the client, with a command of the form
  \<open>host-serial:<serial>:<subcommand>\<close>: \<open>get-state\<close>;
  \<open>forward:[norebind:]<local>;<remote>\<close>; \<open>killforward:<local>\<close>. \<open>Forward\<close> and
  \<open>ForwardKill\<close> write a port as \<open>tcp:<port>\<close>; the segment \<open>norebind:\<close> is there
  exactly when the optional flag is given and true. None of them sends
  \<open>host:transport:<serial>\<close>.
\<close>

theorem host_side_commands:
  "fst (State p d tr)
     = tr @ [ClientExecuteCommand (''host-serial:'' @ serial d @ '':get-state'') []]
   \<and> fst (Forward p d localPort remotePort noRebind tr)
     = tr @ [ClientExecuteCommand
               (''host-serial:'' @ serial d @ '':forward:''
                  @ (if noRebind \<noteq> [] \<and> hd noRebind then ''norebind:'' else '''')
                  @ ''tcp:'' @ fmt_d localPort @ '';'' @ ''tcp:'' @ fmt_d remotePort) [True]]
   \<and> fst (RawForward p d local remote noRebind tr)
     = tr @ [ClientExecuteCommand
               (''host-serial:'' @ serial d @ '':forward:''
                  @ (if noRebind \<noteq> [] \<and> hd noRebind then ''norebind:'' else '''')
                  @ local @ '';'' @ remote) [True]]
   \<and> fst (ForwardKill p d localPort tr)
     = tr @ [ClientExecuteCommand
               (''host-serial:'' @ serial d @ '':killforward:'' @ ''tcp:'' @ fmt_d localPort) [True]]
   \<and> \<not> list_ex (is_transport_command d) (drop (length tr) (fst (State p d tr)))
   \<and> \<not> list_ex (is_transport_command d)
          (drop (length tr) (fst (Forward p d localPort remotePort noRebind tr)))
   \<and> \<not> list_ex (is_transport_command d)
          (drop (length tr) (fst (RawForward p d local remote noRebind tr)))
   \<and> \<not> list_ex (is_transport_command d) (drop (length tr) (fst (ForwardKill p d localPort tr)))"
  by (simp add: State_def Forward_def RawForward_def ForwardKill_def Client_executeCommand_def
      Let_def split: prod.split)

text \<open>The commands for ports 8080 and 9090, with the flag true, false and absent.\<close>

theorem host_side_commands_witness:
  "fst (State (peer_upto 0 (Error ''EOF'')) emulator [])
     = [ClientExecuteCommand ''host-serial:emulator-5554:get-state'' []]
   \<and> fst (Forward (peer_upto 0 (Error ''EOF'')) emulator 8080 9090 [True] [])
     = [ClientExecuteCommand ''host-serial:emulator-5554:forward:norebind:tcp:8080;tcp:9090'' [True]]
   \<and> fst (Forward (peer_upto 0 (Error ''EOF'')) emulator 8080 9090 [False] [])
     = [ClientExecuteCommand ''host-serial:emulator-5554:forward:tcp:8080;tcp:9090'' [True]]
   \<and> fst (Forward (peer_upto 0 (Error ''EOF'')) emulator 8080 9090 [] [])
     = [ClientExecuteCommand ''host-serial:emulator-5554:forward:tcp:8080;tcp:9090'' [True]]
   \<and> fst (RawForward (peer_upto 0 (Error ''EOF'')) emulator ''tcp:7'' ''localabstract:x'' [True] [])
     = [ClientExecuteCommand ''host-serial:emulator-5554:forward:norebind:tcp:7;localabstract:x'' [True]]
   \<and> fst (ForwardKill (peer_upto 0 (Error ''EOF'')) emulator 8080 [])
     = [ClientExecuteCommand ''host-serial:emulator-5554:killforward:tcp:8080'' [True]]"
  using host_side_commands [of "peer_upto 0 (Error ''EOF'')" emulator "[]" 8080 9090 "[True]" "''tcp:7''" "''localabstract:x''"]
    host_side_commands [of "peer_upto 0 (Error ''EOF'')" emulator "[]" 8080 9090 "[False]" "''tcp:7''" "''localabstract:x''"]
    host_side_commands [of "peer_upto 0 (Error ''EOF'')" emulator "[]" 8080 9090 "[]" "''tcp:7''" "''localabstract:x''"]
  by (simp add: emulator_def fmt_d_def fmt_nat.simps)

subsection \<open>The handshake\<close>

lemma run_calls_succeed:
  "succeed p tr es \<Longrightarrow> run_calls p tr es = (tr @ es, None)"
  by (induction es arbitrary: tr) auto

lemma run_calls_fail:
  "\<not> succeed p tr es \<Longrightarrow> snd (run_calls p tr es) \<noteq> None"
  by (induction es arbitrary: tr) (auto split: option.split)

lemma run_calls_prefix:
  "prefix tr (fst (run_calls p tr es))"
proof (induction es arbitrary: tr)
  case Nil
  show ?case by simp
next
  case (Cons e es)
  have "prefix tr (tr @ [e])"
    by simp
  also have "prefix (tr @ [e]) (fst (run_calls p (tr @ [e]) es))"
    by (rule Cons.IH)
  finally show ?case
    by (simp split: option.split)
qed

lemma CreateDeviceTransport_ok:
  "succeed p tr (handshake d (length tr))
     \<Longrightarrow> CreateDeviceTransport p d tr = (tr @ handshake d (length tr), Some (length tr), None)"
  by (simp add: CreateDeviceTransport_def handshake_def Let_def)

lemma CreateDeviceTransport_fail:
  "\<not> succeed p tr (handshake d (length tr))
     \<Longrightarrow> \<exists>tp e. CreateDeviceTransport p d tr
                  = (fst (run_calls p tr (handshake d (length tr))), tp, Some e)
            \<and> snd (run_calls p tr (handshake d (length tr))) = Some e"
  by (auto simp add: CreateDeviceTransport_def handshake_def Let_def split: option.split)

text \<open>An operation that returns the handshake's trace and error when the handshake fails.\<close>

lemma begins_with_handshake_fail:
  assumes "\<not> succeed p tr (handshake d (length tr))"
    and "tr' = fst (run_calls p tr (handshake d (length tr)))"
    and "err' = snd (run_calls p tr (handshake d (length tr)))"
  shows "begins_with_handshake p d tr tr' err'"
  using assms by (simp add: begins_with_handshake_def split: prod.split)

lemma begins_with_handshake_ok:
  assumes "succeed p tr (handshake d (length tr))"
    and "prefix (tr @ handshake d (length tr)) tr'"
  shows "begins_with_handshake p d tr tr' err'"
  using assms by (simp add: begins_with_handshake_def run_calls_succeed)

subsection \<open>The loop of List\<close>

lemma List_loop_reads:
  assumes "List_loop p sy tr acc = Some r"
  shows "\<exists>n. fst r = tr @ replicate (Suc n) (SyncReadDirectoryEntry sy)"
proof (rule List_loop.raw_induct
    [where P = "\<lambda>p sy tr acc r. \<exists>n. fst r = tr @ replicate (Suc n) (SyncReadDirectoryEntry sy)",
      OF _ assms])
  fix loop p sy tr acc r
  assume IH: "\<And>p sy tr acc r. loop p sy tr acc = Some r
      \<Longrightarrow> \<exists>n. fst r = tr @ replicate (Suc n) (SyncReadDirectoryEntry sy)"
    and body: "(let tr1 = tr @ [SyncReadDirectoryEntry sy]
          in case reply_dent p tr1 of
               (entry, err) \<Rightarrow>
                 if err \<noteq> None then Some (tr1, acc, err)
                 else if entry = DeviceFileInfo_zero then Some (tr1, acc, err)
                 else loop p sy tr1 (acc @ [entry])) = Some r"
  obtain entry err where reply: "reply_dent p (tr @ [SyncReadDirectoryEntry sy]) = (entry, err)"
    by (cases "reply_dent p (tr @ [SyncReadDirectoryEntry sy])")
  show "\<exists>n. fst r = tr @ replicate (Suc n) (SyncReadDirectoryEntry sy)"
  proof (cases "err \<noteq> None \<or> entry = DeviceFileInfo_zero")
    case True
    with body reply have "fst r = tr @ replicate (Suc 0) (SyncReadDirectoryEntry sy)"
      by (auto simp: Let_def split: if_splits)
    then show ?thesis ..
  next
    case False
    with body reply
    have "loop p sy (tr @ [SyncReadDirectoryEntry sy]) (acc @ [entry]) = Some r"
      by (auto simp: Let_def split: if_splits)
    then obtain n where
      "fst r = (tr @ [SyncReadDirectoryEntry sy]) @ replicate (Suc n) (SyncReadDirectoryEntry sy)"
      using IH by blast
    then have "fst r = tr @ replicate (Suc (Suc n)) (SyncReadDirectoryEntry sy)"
      by simp
    then show ?thesis ..
  qed
qed

text \<open>
  When the peer delivers the entries \<open>es\<close>, none of them all-zero, and then an error or
  an all-zero entry, the loop returns after one more read than there are entries.
\<close>

lemma List_loop_drain:
  assumes "\<forall>i<length es.
             reply_dent p (tr @ replicate (Suc i) (SyncReadDirectoryEntry sy)) = (es ! i, None)"
    and "DeviceFileInfo_zero \<notin> set es"
    and "reply_dent p (tr @ replicate (Suc (length es)) (SyncReadDirectoryEntry sy)) = (entry, err)"
    and "err \<noteq> None \<or> entry = DeviceFileInfo_zero"
  shows "List_loop p sy tr acc
           = Some (tr @ replicate (Suc (length es)) (SyncReadDirectoryEntry sy), acc @ es, err)"
  using assms
proof (induction es arbitrary: tr acc)
  case Nil
  then show ?case
    by (subst List_loop.simps) (auto simp: Let_def)
next
  case (Cons e es)
  let ?rd = "SyncReadDirectoryEntry sy"
  from Cons.prems(1) have first: "reply_dent p (tr @ [?rd]) = (e, None)"
    by force
  from Cons.prems(2) have e: "e \<noteq> DeviceFileInfo_zero" and es: "DeviceFileInfo_zero \<notin> set es"
    by auto
  have rest: "\<forall>i<length es. reply_dent p ((tr @ [?rd]) @ replicate (Suc i) ?rd) = (es ! i, None)"
  proof (intro allI impI)
    fix i
    assume "i < length es"
    then have "Suc i < length (e # es)"
      by simp
    with Cons.prems(1) have "reply_dent p (tr @ replicate (Suc (Suc i)) ?rd) = ((e # es) ! Suc i, None)"
      by blast
    then show "reply_dent p ((tr @ [?rd]) @ replicate (Suc i) ?rd) = (es ! i, None)"
      by simp
  qed
  from Cons.prems(3)
  have stop: "reply_dent p ((tr @ [?rd]) @ replicate (Suc (length es)) ?rd) = (entry, err)"
    by simp
  have "List_loop p sy tr acc = List_loop p sy (tr @ [?rd]) (acc @ [e])"
    using first e by (subst List_loop.simps) (simp add: Let_def)
  also have "\<dots> = Some ((tr @ [?rd]) @ replicate (Suc (length es)) ?rd, (acc @ [e]) @ es, err)"
    using rest es stop Cons.prems(4) by (rule Cons.IH)
  finally show ?case
    by simp
qed

subsection \<open>Operations after the handshake\<close>

lemma executeCommand_ok:
  "succeed p tr (handshake d (length tr)) \<Longrightarrow>
   flags = (if length onlyVerifyResponse = 0 then [False] else onlyVerifyResponse) \<Longrightarrow>
     executeCommand p d command onlyVerifyResponse tr
       = (case executeCommand_tp p (length tr) command flags (tr @ handshake d (length tr)) of
            (tr2, raw, err) \<Rightarrow> (tr2 @ [TpClose (length tr)], raw, err))"
  by (simp add: executeCommand_def CreateDeviceTransport_ok Let_def)

lemma executeCommand_fail:
  "\<not> succeed p tr (handshake d (length tr)) \<Longrightarrow>
     executeCommand p d command onlyVerifyResponse tr
       = (fst (run_calls p tr (handshake d (length tr))), None,
          snd (run_calls p tr (handshake d (length tr))))"
  using CreateDeviceTransport_fail [of p tr d] by (auto simp: executeCommand_def Let_def)

lemma List_ok:
  "succeed p tr (handshake d (length tr)) \<Longrightarrow>
     List p d remotePath tr
       = (case List_tp p (length tr) remotePath (tr @ handshake d (length tr)) of
            None \<Rightarrow> None
          | Some (tr2, devFileInfos, err) \<Rightarrow> Some (tr2 @ [TpClose (length tr)], devFileInfos, err))"
  by (simp add: List_def CreateDeviceTransport_ok)

lemma List_fail:
  "\<not> succeed p tr (handshake d (length tr)) \<Longrightarrow>
     List p d remotePath tr
       = Some (fst (run_calls p tr (handshake d (length tr))), None,
               snd (run_calls p tr (handshake d (length tr))))"
  using CreateDeviceTransport_fail [of p tr d] by (auto simp: List_def)

lemma Push_ok:
  "succeed p tr (handshake d (length tr)) \<Longrightarrow>
   modes = (if length mode = 0 then [DefaultFileMode] else mode) \<Longrightarrow>
     Push p d source remotePath modification mode tr
       = (case Push_tp p (length tr) source remotePath modification modes
                 (tr @ handshake d (length tr)) of
            (tr2, err) \<Rightarrow> (tr2 @ [TpClose (length tr)], err))"
  by (simp add: Push_def CreateDeviceTransport_ok Let_def)

lemma Push_fail:
  "\<not> succeed p tr (handshake d (length tr)) \<Longrightarrow>
     Push p d source remotePath modification mode tr = run_calls p tr (handshake d (length tr))"
proof -
  assume "\<not> succeed p tr (handshake d (length tr))"
  then obtain tp e
    where c: "CreateDeviceTransport p d tr = (fst (run_calls p tr (handshake d (length tr))), tp, Some e)"
      and s: "snd (run_calls p tr (handshake d (length tr))) = Some e"
    using CreateDeviceTransport_fail by blast
  show ?thesis
    by (simp add: Push_def Let_def c s prod_eq_iff)
qed

lemma Pull_ok:
  "succeed p tr (handshake d (length tr)) \<Longrightarrow>
     Pull p d remotePath dest tr
       = (case Pull_tp p (length tr) remotePath dest (tr @ handshake d (length tr)) of
            (tr2, err) \<Rightarrow> (tr2 @ [TpClose (length tr)], err))"
  by (simp add: Pull_def CreateDeviceTransport_ok)

lemma Pull_fail:
  "\<not> succeed p tr (handshake d (length tr)) \<Longrightarrow>
     Pull p d remotePath dest tr = run_calls p tr (handshake d (length tr))"
proof -
  assume "\<not> succeed p tr (handshake d (length tr))"
  then obtain tp e
    where c: "CreateDeviceTransport p d tr = (fst (run_calls p tr (handshake d (length tr))), tp, Some e)"
      and s: "snd (run_calls p tr (handshake d (length tr))) = Some e"
    using CreateDeviceTransport_fail by blast
  show ?thesis
    by (simp add: Pull_def c s prod_eq_iff)
qed

lemma ShellStream_fail:
  "\<not> succeed p tr (handshake d (length tr)) \<Longrightarrow>
     ShellStream p d cmd tr
       = (fst (run_calls p tr (handshake d (length tr))), None, None,
          snd (run_calls p tr (handshake d (length tr))))"
  using CreateDeviceTransport_fail [of p tr d] by (auto simp: ShellStream_def)

text \<open>Every part of an operation only adds to the trace.\<close>

lemma executeCommand_tp_prefix:
  "executeCommand_tp p tp command onlyVerifyResponse tr = (tr', raw, err) \<Longrightarrow> prefix tr tr'"
  by (auto simp: executeCommand_tp_def Let_def split: option.splits if_splits)

lemma List_loop_prefix:
  "List_loop p sy tr acc = Some (tr', r) \<Longrightarrow> prefix tr tr'"
  using List_loop_reads [of p sy tr acc "(tr', r)"] by auto

lemma List_sync_prefix:
  "List_sync p sy remotePath tr = Some (tr', r) \<Longrightarrow> prefix tr tr'"
  by (auto simp: List_sync_def Let_def split: option.splits
      dest!: List_loop_prefix dest: append_prefixD)

lemma List_tp_prefix:
  "List_tp p tp remotePath tr = Some (tr', r) \<Longrightarrow> prefix tr tr'"
  by (auto simp: List_tp_def Let_def split: option.splits
      dest!: List_sync_prefix dest: append_prefixD intro: prefix_order.order_trans)

lemma Push_sync_prefix:
  "Push_sync p sy source remotePath modification mode tr = (tr', err) \<Longrightarrow> prefix tr tr'"
  by (auto simp: Push_sync_def Let_def split: option.splits)

lemma Push_tp_prefix:
  "Push_tp p tp source remotePath modification mode tr = (tr', err) \<Longrightarrow> prefix tr tr'"
  by (auto simp: Push_tp_def Let_def split: option.splits prod.splits
      dest!: Push_sync_prefix dest: append_prefixD intro: prefix_order.order_trans)

lemma Pull_tp_prefix:
  "Pull_tp p tp remotePath dest tr = (tr', err) \<Longrightarrow> prefix tr tr'"
  by (auto simp: Pull_tp_def Let_def split: option.splits)

subsection \<open>Every device-targeted operation begins with the handshake\<close>

lemma executeCommand_begins:
  "case executeCommand p d command onlyVerifyResponse tr of
     (tr', raw, err') \<Rightarrow> begins_with_handshake p d tr tr' err'"
proof (cases "succeed p tr (handshake d (length tr))")
  case True
  define flags where "flags = (if length onlyVerifyResponse = 0 then [False] else onlyVerifyResponse)"
  obtain tr2 raw err
    where run: "executeCommand_tp p (length tr) command flags (tr @ handshake d (length tr))
                  = (tr2, raw, err)"
    by (rule prod_cases3)
  then have "prefix (tr @ handshake d (length tr)) (tr2 @ [TpClose (length tr)])"
    by (intro prefix_prefix) (rule executeCommand_tp_prefix)
  with True show ?thesis
    by (simp add: executeCommand_ok [OF True flags_def] run begins_with_handshake_ok)
next
  case False
  then show ?thesis
    by (simp add: executeCommand_fail begins_with_handshake_fail)
qed

lemma List_begins:
  assumes "List p d remotePath tr = Some (tr', infos, err')"
  shows "begins_with_handshake p d tr tr' err'"
proof (cases "succeed p tr (handshake d (length tr))")
  case True
  with assms obtain tr2
    where run: "List_tp p (length tr) remotePath (tr @ handshake d (length tr))
                  = Some (tr2, infos, err')"
      and tr': "tr' = tr2 @ [TpClose (length tr)]"
    by (auto simp: List_ok split: option.splits)
  from run have "prefix (tr @ handshake d (length tr)) tr2"
    by (rule List_tp_prefix)
  then have "prefix (tr @ handshake d (length tr)) tr'"
    unfolding tr' by (rule prefix_prefix)
  with True show ?thesis
    by (rule begins_with_handshake_ok)
next
  case False
  with assms show ?thesis
    by (simp add: List_fail begins_with_handshake_fail)
qed

lemma Push_begins:
  "case Push p d source remotePath modification mode tr of
     (tr', err') \<Rightarrow> begins_with_handshake p d tr tr' err'"
proof (cases "succeed p tr (handshake d (length tr))")
  case True
  define modes where "modes = (if length mode = 0 then [DefaultFileMode] else mode)"
  obtain tr2 err
    where run: "Push_tp p (length tr) source remotePath modification modes
                  (tr @ handshake d (length tr)) = (tr2, err)"
    by (rule prod.exhaust)
  then have "prefix (tr @ handshake d (length tr)) (tr2 @ [TpClose (length tr)])"
    by (intro prefix_prefix) (rule Push_tp_prefix)
  with True show ?thesis
    by (simp add: Push_ok [OF True modes_def] run begins_with_handshake_ok)
next
  case False
  then show ?thesis
    by (simp add: Push_fail begins_with_handshake_fail split: prod.split)
qed

lemma Pull_begins:
  "case Pull p d remotePath dest tr of
     (tr', err') \<Rightarrow> begins_with_handshake p d tr tr' err'"
proof (cases "succeed p tr (handshake d (length tr))")
  case True
  obtain tr2 err
    where run: "Pull_tp p (length tr) remotePath dest (tr @ handshake d (length tr)) = (tr2, err)"
    by (rule prod.exhaust)
  then have "prefix (tr @ handshake d (length tr)) (tr2 @ [TpClose (length tr)])"
    by (intro prefix_prefix) (rule Pull_tp_prefix)
  with True show ?thesis
    by (simp add: Pull_ok run begins_with_handshake_ok)
next
  case False
  then show ?thesis
    by (simp add: Pull_fail begins_with_handshake_fail split: prod.split)
qed

lemma ShellStream_begins:
  "case ShellStream p d cmd tr of
     (tr', tp, scanner, err') \<Rightarrow> begins_with_handshake p d tr tr' err'"
proof (cases "succeed p tr (handshake d (length tr))")
  case True
  then show ?thesis
    by (auto simp: ShellStream_def CreateDeviceTransport_ok Let_def split: option.split
        intro!: begins_with_handshake_ok)
next
  case False
  then show ?thesis
    by (simp add: ShellStream_fail begins_with_handshake_fail)
qed

text \<open>
  Claim C4. Every device-targeted operation (\<open>executeCommand\<close> and the shell and tcpip
  commands built on it, \<open>List\<close>, \<open>Push\<close>, \<open>Pull\<close>, \<open>ShellStream\<close>) begins by opening
  a fresh transport to the client's address, sending exactly \<open>host:transport:<serial>\<close>
  on it and verifying the response, before anything else. If one of these three calls
  fails, the operation returns that error and performs no further call.
\<close>

theorem operations_begin_with_handshake:
  "(case executeCommand p d command onlyVerifyResponse tr of
      (tr', raw, err') \<Rightarrow> begins_with_handshake p d tr tr' err')
   \<and> (TrimSpace (if length args > 0 then cmd @ '' '' @ Join args '' '' else cmd) \<noteq> [] \<longrightarrow>
        (case RunShellCommandWithBytes p d cmd args tr of
           (tr', raw, err') \<Rightarrow> begins_with_handshake p d tr tr' err'))
   \<and> (case EnableAdbOverTCP AdbDaemonPort p d port' tr of
        (tr', err') \<Rightarrow> begins_with_handshake p d tr tr' err')
   \<and> (\<forall>tr' infos err'. List p d remotePath tr = Some (tr', infos, err')
        \<longrightarrow> begins_with_handshake p d tr tr' err')
   \<and> (\<not> succeed p tr (handshake d (length tr)) \<longrightarrow> List p d remotePath tr \<noteq> None)
   \<and> (case Push p d source remotePath modification mode tr of
        (tr', err') \<Rightarrow> begins_with_handshake p d tr tr' err')
   \<and> (case Pull p d remotePath dest tr of
        (tr', err') \<Rightarrow> begins_with_handshake p d tr tr' err')
   \<and> (case ShellStream p d cmd tr of
        (tr', tp, scanner, err') \<Rightarrow> begins_with_handshake p d tr tr' err')"
proof (intro conjI)
  show "case executeCommand p d command onlyVerifyResponse tr of
          (tr', raw, err') \<Rightarrow> begins_with_handshake p d tr tr' err'"
    by (rule executeCommand_begins)
  show "TrimSpace (if length args > 0 then cmd @ '' '' @ Join args '' '' else cmd) \<noteq> [] \<longrightarrow>
        (case RunShellCommandWithBytes p d cmd args tr of
           (tr', raw, err') \<Rightarrow> begins_with_handshake p d tr tr' err')"
  proof
    define line where "line = (if length args > 0 then cmd @ '' '' @ Join args '' '' else cmd)"
    assume "TrimSpace (if length args > 0 then cmd @ '' '' @ Join args '' '' else cmd) \<noteq> []"
    then have "RunShellCommandWithBytes p d cmd args tr = executeCommand p d (''shell:'' @ line) [] tr"
      by (simp add: RunShellCommandWithBytes_def Let_def line_def)
    then show "case RunShellCommandWithBytes p d cmd args tr of
                 (tr', raw, err') \<Rightarrow> begins_with_handshake p d tr tr' err'"
      using executeCommand_begins [where p = p and d = d and tr = tr
          and command = "''shell:'' @ line" and onlyVerifyResponse = "[]"]
      by simp
  qed
  show "case EnableAdbOverTCP AdbDaemonPort p d port' tr of
          (tr', err') \<Rightarrow> begins_with_handshake p d tr tr' err'"
  proof -
    define command
      where "command = ''tcpip:'' @ fmt_d (hd (if length port' = 0 then [AdbDaemonPort] else port'))"
    obtain tr' raw err' where run: "executeCommand p d command [True] tr = (tr', raw, err')"
      by (rule prod_cases3)
    with executeCommand_begins [where p = p and d = d and tr = tr and command = command
        and onlyVerifyResponse = "[True]"]
    have "begins_with_handshake p d tr tr' err'"
      by simp
    with run show ?thesis
      by (simp add: EnableAdbOverTCP_def Let_def command_def)
  qed
  show "\<forall>tr' infos err'. List p d remotePath tr = Some (tr', infos, err')
          \<longrightarrow> begins_with_handshake p d tr tr' err'"
    by (blast intro: List_begins)
  show "\<not> succeed p tr (handshake d (length tr)) \<longrightarrow> List p d remotePath tr \<noteq> None"
    by (simp add: List_fail)
  show "case Push p d source remotePath modification mode tr of
          (tr', err') \<Rightarrow> begins_with_handshake p d tr tr' err'"
    by (rule Push_begins)
  show "case Pull p d remotePath dest tr of
          (tr', err') \<Rightarrow> begins_with_handshake p d tr tr' err'"
    by (rule Pull_begins)
  show "case ShellStream p d cmd tr of
          (tr', tp, scanner, err') \<Rightarrow> begins_with_handshake p d tr tr' err'"
    by (rule ShellStream_begins)
qed

text \<open>
  A server that accepts the connection and then fails the \<open>host:transport\<close> command:
  every operation stops after these two calls and returns the error.
\<close>

theorem operations_begin_with_handshake_witness:
  "\<not> succeed (peer_upto 1 (Error ''device offline'')) [] (handshake emulator 0)
   \<and> TrimSpace ''ls'' \<noteq> []
   \<and> RunShellCommandWithBytes (peer_upto 1 (Error ''device offline'')) emulator ''ls'' [] []
       = ([NewTransport ''localhost:5037'', TpSend 0 ''host:transport:emulator-5554''],
          None, Some (Error ''device offline''))
   \<and> List (peer_upto 1 (Error ''device offline'')) emulator ''/sdcard'' []
       = Some ([NewTransport ''localhost:5037'', TpSend 0 ''host:transport:emulator-5554''],
               None, Some (Error ''device offline''))
   \<and> Push (peer_upto 1 (Error ''device offline'')) emulator 1 ''/sdcard/a.txt'' Time_zero [] []
       = ([NewTransport ''localhost:5037'', TpSend 0 ''host:transport:emulator-5554''],
          Some (Error ''device offline''))
   \<and> Pull (peer_upto 1 (Error ''device offline'')) emulator ''/sdcard/a.txt'' 2 []
       = ([NewTransport ''localhost:5037'', TpSend 0 ''host:transport:emulator-5554''],
          Some (Error ''device offline''))
   \<and> ShellStream (peer_upto 1 (Error ''device offline'')) emulator ''logcat'' []
       = ([NewTransport ''localhost:5037'', TpSend 0 ''host:transport:emulator-5554''],
          None, None, Some (Error ''device offline''))
   \<and> begins_with_handshake (peer_upto 1 (Error ''device offline'')) emulator []
         [NewTransport ''localhost:5037'', TpSend 0 ''host:transport:emulator-5554'']
         (Some (Error ''device offline''))"
  using operations_begin_with_handshake [where p = "peer_upto 1 (Error ''device offline'')"
      and d = emulator and tr = "[]" and cmd = "''ls''" and args = "[]"
      and remotePath = "''/sdcard''"]
  by (simp add: peer_upto_def emulator_def handshake_def fmt_d_def fmt_nat.simps
      TrimSpace_def asciiSpace_def RuneSelf_def
      RunShellCommandWithBytes_def executeCommand_def CreateDeviceTransport_def
      List_def Push_def Pull_def ShellStream_def begins_with_handshake_def Let_def)

subsection \<open>The transport is closed on every exit\<close>

text \<open>
  \<open>CreateDeviceTransport\<close> itself never closes the transport it has opened: when its
  send or its verification fails, it returns the error with the transport still open,
  and so do the operations built on it.
\<close>

lemma CreateDeviceTransport_no_close:
  "TpClose t \<notin> set (drop (length tr) (fst (CreateDeviceTransport p d tr)))"
  by (simp add: CreateDeviceTransport_def Let_def split: option.split)

text \<open>
  Once \<open>CreateDeviceTransport\<close> has returned a transport (the three calls of the
  handshake have succeeded), \<open>executeCommand\<close>, \<open>List\<close>, \<open>Push\<close> and \<open>Pull\<close> close
  that transport as the last thing they do, whatever the later calls return, error or
  not: the deferred \<open>tp.Close()\<close> covers every exit behind the handshake.
\<close>

lemma transport_closed_after_handshake:
  assumes "succeed p tr (handshake d (length tr))"
  shows "last (fst (executeCommand p d command onlyVerifyResponse tr)) = TpClose (length tr)
    \<and> (\<forall>r. List p d remotePath tr = Some r \<longrightarrow> last (fst r) = TpClose (length tr))
    \<and> last (fst (Push p d source remotePath modification mode tr)) = TpClose (length tr)
    \<and> last (fst (Pull p d remotePath dest tr)) = TpClose (length tr)"
proof (intro conjI)
  show "last (fst (executeCommand p d command onlyVerifyResponse tr)) = TpClose (length tr)"
    by (simp add: executeCommand_ok [OF assms refl] split: prod.split)
  show "\<forall>r. List p d remotePath tr = Some r \<longrightarrow> last (fst r) = TpClose (length tr)"
    by (auto simp: List_ok [OF assms] split: option.splits)
  show "last (fst (Push p d source remotePath modification mode tr)) = TpClose (length tr)"
    by (simp add: Push_ok [OF assms refl] split: prod.split)
  show "last (fst (Pull p d remotePath dest tr)) = TpClose (length tr)"
    by (simp add: Pull_ok [OF assms] split: prod.split)
qed

text \<open>
  A server that accepts the handshake and one more call, then fails: the command's
  response is rejected, and the \<open>LIST\<close>, \<open>SEND\<close> and \<open>RECV\<close> requests fail.
\<close>

lemma transport_closed_after_handshake_example:
  "succeed (peer_upto 4 (Error ''EOF'')) [] (handshake emulator (length ([] :: event list)))
   \<and> executeCommand (peer_upto 4 (Error ''EOF'')) emulator ''shell:ls'' [] []
       = ([NewTransport ''localhost:5037'', TpSend 0 ''host:transport:emulator-5554'',
           TpVerifyResponse 0, TpSend 0 ''shell:ls'', TpVerifyResponse 0, TpClose 0],
          None, Some (Error ''EOF''))
   \<and> last (fst (executeCommand (peer_upto 4 (Error ''EOF'')) emulator ''shell:ls'' [] []))
       = TpClose 0
   \<and> List (peer_upto 4 (Error ''EOF'')) emulator ''/sdcard'' []
       = Some ([NewTransport ''localhost:5037'', TpSend 0 ''host:transport:emulator-5554'',
                TpVerifyResponse 0, TpCreateSyncTransport 0, SyncSend 0 ''LIST'' ''/sdcard'',
                SyncClose 0, TpClose 0],
               None, Some (Error ''EOF''))
   \<and> last (fst (Push (peer_upto 4 (Error ''EOF'')) emulator 1 ''/sdcard/a.txt'' Time_zero [] []))
       = TpClose 0
   \<and> last (fst (Pull (peer_upto 4 (Error ''EOF'')) emulator ''/sdcard/a.txt'' 2 []))
       = TpClose 0"
  using transport_closed_after_handshake [where p = "peer_upto 4 (Error ''EOF'')"
      and d = emulator and tr = "[]" and command = "''shell:ls''" and onlyVerifyResponse = "[]"
      and remotePath = "''/sdcard''"]
    transport_closed_after_handshake [where p = "peer_upto 4 (Error ''EOF'')"
      and d = emulator and tr = "[]" and remotePath = "''/sdcard/a.txt''" and source = 1
      and modification = Time_zero and mode = "[]" and dest = 2]
  by (simp add: peer_upto_def emulator_def handshake_def fmt_d_def fmt_nat.simps
      executeCommand_def executeCommand_tp_def CreateDeviceTransport_def
      List_def List_tp_def List_sync_def Let_def)

text \<open>
  Claim C5 says that after the transport is created \<open>executeCommand\<close>, \<open>List\<close>, \<open>Push\<close>
  and \<open>Pull\<close> close it before returning on every path, so that no exit leaves the
  connection open. The code does otherwise on the exits inside the handshake: here
  \<open>NewTransport\<close> succeeds and the server rejects \<open>host:transport\<close> (the send on the
  open transport succeeds, the verification of the response fails; or the send itself
  fails). Each operation returns the error and has not closed the transport.
\<close>

theorem transport_left_open_on_handshake_failure:
  "executeCommand (peer_upto 2 (Error ''device offline'')) emulator ''shell:ls'' [] []
     = ([NewTransport ''localhost:5037'', TpSend 0 ''host:transport:emulator-5554'',
         TpVerifyResponse 0],
        None, Some (Error ''device offline''))
   \<and> List (peer_upto 2 (Error ''device offline'')) emulator ''/sdcard'' []
     = Some ([NewTransport ''localhost:5037'', TpSend 0 ''host:transport:emulator-5554'',
              TpVerifyResponse 0],
             None, Some (Error ''device offline''))
   \<and> Push (peer_upto 2 (Error ''device offline'')) emulator 1 ''/sdcard/a.txt'' Time_zero [] []
     = ([NewTransport ''localhost:5037'', TpSend 0 ''host:transport:emulator-5554'',
         TpVerifyResponse 0],
        Some (Error ''device offline''))
   \<and> Pull (peer_upto 2 (Error ''device offline'')) emulator ''/sdcard/a.txt'' 2 []
     = ([NewTransport ''localhost:5037'', TpSend 0 ''host:transport:emulator-5554'',
         TpVerifyResponse 0],
        Some (Error ''device offline''))
   \<and> executeCommand (peer_upto 1 (Error ''broken pipe'')) emulator ''shell:ls'' [] []
     = ([NewTransport ''localhost:5037'', TpSend 0 ''host:transport:emulator-5554''],
        None, Some (Error ''broken pipe''))
   \<and> TpClose 0 \<notin> set [NewTransport ''localhost:5037'',
                         TpSend 0 ''host:transport:emulator-5554'', TpVerifyResponse 0]"
  by (simp add: peer_upto_def emulator_def fmt_d_def fmt_nat.simps
      executeCommand_def CreateDeviceTransport_def List_def Push_def Pull_def Let_def)

subsection \<open>ShellStream\<close>

lemma TpClose_notin_handshake:
  "TpClose t \<notin> set (handshake d tp)"
  by (simp add: handshake_def)

lemma ShellStream_ok:
  assumes "succeed p tr (handshake d (length tr))"
    and "send = tr @ handshake d (length tr) @ [TpSend (length tr) (''shell:'' @ cmd)]"
  shows "ShellStream p d cmd tr =
     (case reply_err p send of
        Some e \<Rightarrow> (send @ [TpClose (length tr)], None, None, Some e)
      | None \<Rightarrow>
          (case reply_err p (send @ [TpVerifyResponse (length tr)]) of
             Some e \<Rightarrow> (send @ [TpVerifyResponse (length tr), TpClose (length tr)],
                        None, None, Some e)
           | None \<Rightarrow> (send @ [TpVerifyResponse (length tr)],
                       Some (length tr), Some (length tr), None)))"
  using assms
  by (simp add: ShellStream_def CreateDeviceTransport_ok Let_def split: option.split)

text \<open>
  With the device transport created, \<open>ShellStream\<close> sends \<open>shell:<cmd>\<close> and verifies
  the response. On success it returns the transport and a scanner over its socket, and
  has not closed the transport. When this send or this verification fails it closes the
  transport as its last call and returns the error with no transport and no scanner.
\<close>

lemma ShellStream_after_handshake:
  assumes "succeed p tr (handshake d (length tr))"
    and "ShellStream p d cmd tr = (tr', tp, scanner, err)"
    and "send = tr @ handshake d (length tr) @ [TpSend (length tr) (''shell:'' @ cmd)]"
  shows "(err = None \<longrightarrow>
            tp = Some (length tr) \<and> scanner = Some (length tr)
            \<and> tr' = send @ [TpVerifyResponse (length tr)]
            \<and> TpClose (length tr) \<notin> set (drop (length tr) tr'))
       \<and> (err \<noteq> None \<longrightarrow>
            tp = None \<and> scanner = None \<and> last tr' = TpClose (length tr)
            \<and> ((err = reply_err p send \<and> tr' = send @ [TpClose (length tr)])
               \<or> (reply_err p send = None
                   \<and> err = reply_err p (send @ [TpVerifyResponse (length tr)])
                   \<and> tr' = send @ [TpVerifyResponse (length tr), TpClose (length tr)])))"
proof -
  have "TpClose (length tr) \<notin> set (drop (length tr) (send @ [TpVerifyResponse (length tr)]))"
    by (simp add: assms(3) TpClose_notin_handshake)
  note closed = this
  note run = assms(2) [unfolded ShellStream_ok [OF assms(1) assms(3)], symmetric]
  show ?thesis
  proof (cases "reply_err p send")
    case (Some e)
    with run have "tr' = send @ [TpClose (length tr)]" "tp = None" "scanner = None" "err = Some e"
      by auto
    with Some show ?thesis
      by simp
  next
    case None
    show ?thesis
    proof (cases "reply_err p (send @ [TpVerifyResponse (length tr)])")
      case (Some e)
      with run None
      have "tr' = send @ [TpVerifyResponse (length tr), TpClose (length tr)]" "tp = None"
        "scanner = None" "err = Some e"
        by auto
      with Some None show ?thesis
        by simp
    next
      case verified: None
      with run None
      have "tr' = send @ [TpVerifyResponse (length tr)]" "tp = Some (length tr)"
        "scanner = Some (length tr)" "err = None"
        by auto
      with closed show ?thesis
        by simp
    qed
  qed
qed

text \<open>The response to \<open>shell:logcat\<close> is rejected; then a server that accepts it.\<close>

lemma ShellStream_after_handshake_example:
  "succeed (peer_upto 4 (Error ''closed'')) [] (handshake emulator (length ([] :: event list)))
   \<and> ShellStream (peer_upto 4 (Error ''closed'')) emulator ''logcat'' []
       = ([NewTransport ''localhost:5037'', TpSend 0 ''host:transport:emulator-5554'',
           TpVerifyResponse 0, TpSend 0 ''shell:logcat'', TpVerifyResponse 0, TpClose 0],
          None, None, Some (Error ''closed''))
   \<and> last [NewTransport ''localhost:5037'', TpSend 0 ''host:transport:emulator-5554'',
           TpVerifyResponse 0, TpSend 0 ''shell:logcat'', TpVerifyResponse 0, TpClose 0]
       = TpClose 0
   \<and> ShellStream (peer_upto 5 (Error ''closed'')) emulator ''logcat'' []
       = ([NewTransport ''localhost:5037'', TpSend 0 ''host:transport:emulator-5554'',
           TpVerifyResponse 0, TpSend 0 ''shell:logcat'', TpVerifyResponse 0],
          Some 0, Some 0, None)
   \<and> TpClose 0 \<notin> set [NewTransport ''localhost:5037'', TpSend 0 ''host:transport:emulator-5554'',
           TpVerifyResponse 0, TpSend 0 ''shell:logcat'', TpVerifyResponse 0]"
  using ShellStream_after_handshake [where p = "peer_upto 4 (Error ''closed'')"
      and d = emulator and tr = "[]" and cmd = "''logcat''"
      and tr' = "[NewTransport ''localhost:5037'', TpSend 0 ''host:transport:emulator-5554'',
           TpVerifyResponse 0, TpSend 0 ''shell:logcat'', TpVerifyResponse 0, TpClose 0]"
      and tp = None and scanner = None and err = "Some (Error ''closed'')", OF _ _ refl]
    ShellStream_after_handshake [where p = "peer_upto 5 (Error ''closed'')"
      and d = emulator and tr = "[]" and cmd = "''logcat''"
      and tr' = "[NewTransport ''localhost:5037'', TpSend 0 ''host:transport:emulator-5554'',
           TpVerifyResponse 0, TpSend 0 ''shell:logcat'', TpVerifyResponse 0]"
      and tp = "Some 0" and scanner = "Some 0" and err = None, OF _ _ refl]
  by (simp add: peer_upto_def emulator_def handshake_def fmt_d_def fmt_nat.simps
      ShellStream_def CreateDeviceTransport_def Let_def)

text \<open>
  Claim C8 says that \<open>ShellStream\<close> closes the transport before it returns the error of
  any failed send or response verification. The code does otherwise when it is the send
  or the verification of \<open>host:transport\<close> that fails on the transport just opened:
  \<open>ShellStream\<close> returns the error and no transport, and has not closed the transport.
\<close>

theorem ShellStream_left_open_on_handshake_failure:
  "ShellStream (peer_upto 2 (Error ''device offline'')) emulator ''logcat'' []
     = ([NewTransport ''localhost:5037'', TpSend 0 ''host:transport:emulator-5554'',
         TpVerifyResponse 0],
        None, None, Some (Error ''device offline''))
   \<and> ShellStream (peer_upto 1 (Error ''broken pipe'')) emulator ''logcat'' []
     = ([NewTransport ''localhost:5037'', TpSend 0 ''host:transport:emulator-5554''],
        None, None, Some (Error ''broken pipe''))
   \<and> TpClose 0 \<notin> set [NewTransport ''localhost:5037'',
                         TpSend 0 ''host:transport:emulator-5554'', TpVerifyResponse 0]"
  by (simp add: peer_upto_def emulator_def fmt_d_def fmt_nat.simps
      ShellStream_def CreateDeviceTransport_def Let_def)

subsection \<open>Push\<close>

text \<open>
  Claim C3. On a fresh sync session \<open>Push\<close> performs, in this order: \<open>Send\<close> of
  \<open>SEND\<close> with the payload \<open><remotePath>,<mode in decimal>\<close>, \<open>SendStream\<close> of the
  source, \<open>SendStatus\<close> of \<open>DONE\<close> with the modification time as \<open>uint32\<close> of its
  Unix seconds, \<open>VerifyStatus\<close>. The first of these that fails ends the sequence: its
  error is returned and none of the later steps is performed (only the deferred closes
  of the sync session and of the transport follow).
\<close>

theorem Push_steps:
  assumes "succeed p tr (handshake d tp @ [TpCreateSyncTransport tp])"
    and "tp = length tr"
    and "session = tr @ handshake d tp @ [TpCreateSyncTransport tp]"
    and "s1 = SyncSend tp ''SEND''
                (remotePath @ '','' @ fmt_nat (unat (if mode = [] then DefaultFileMode else hd mode)))"
    and "s2 = SyncSendStream tp source"
    and "s3 = SyncSendStatus tp ''DONE'' (ucast (Unix modification))"
    and "s4 = SyncVerifyStatus tp"
  shows "Push p d source remotePath modification mode tr =
     (case reply_err p (session @ [s1]) of
        Some e \<Rightarrow> (session @ [s1, SyncClose tp, TpClose tp], Some e)
      | None \<Rightarrow>
     (case reply_err p (session @ [s1, s2]) of
        Some e \<Rightarrow> (session @ [s1, s2, SyncClose tp, TpClose tp], Some e)
      | None \<Rightarrow>
     (case reply_err p (session @ [s1, s2, s3]) of
        Some e \<Rightarrow> (session @ [s1, s2, s3, SyncClose tp, TpClose tp], Some e)
      | None \<Rightarrow>
          (session @ [s1, s2, s3, s4, SyncClose tp, TpClose tp],
           reply_err p (session @ [s1, s2, s3, s4])))))"
proof -
  have hs: "succeed p tr (handshake d (length tr))"
    and sync: "reply_err p (tr @ handshake d (length tr) @ [TpCreateSyncTransport (length tr)]) = None"
    using assms(1,2) by (simp_all add: handshake_def)
  show ?thesis
    using sync
    by (simp add: Push_ok [OF hs refl] Push_tp_def Push_sync_def Let_def assms(2-)
        split: option.split)
qed

text \<open>
  Pushing with the default mode 0664 and a modification time of 1700000000 seconds:
  first to a device that fails while the stream is sent, then to one that accepts all.
\<close>

theorem Push_steps_witness:
  "succeed (peer_upto 5 (Error ''EOF'')) [] (handshake emulator 0 @ [TpCreateSyncTransport 0])
   \<and> Push (peer_upto 5 (Error ''EOF'')) emulator 7 ''/sdcard/a.txt''
         \<lparr>wall = 0, ext = 63835596800, loc = None\<rparr> [] []
       = ([NewTransport ''localhost:5037'', TpSend 0 ''host:transport:emulator-5554'',
           TpVerifyResponse 0, TpCreateSyncTransport 0,
           SyncSend 0 ''SEND'' ''/sdcard/a.txt,436'', SyncSendStream 0 7,
           SyncClose 0, TpClose 0],
          Some (Error ''EOF''))
   \<and> Push (peer_upto 9 (Error ''EOF'')) emulator 7 ''/sdcard/a.txt''
         \<lparr>wall = 0, ext = 63835596800, loc = None\<rparr> [0x1ED] []
       = ([NewTransport ''localhost:5037'', TpSend 0 ''host:transport:emulator-5554'',
           TpVerifyResponse 0, TpCreateSyncTransport 0,
           SyncSend 0 ''SEND'' ''/sdcard/a.txt,493'', SyncSendStream 0 7,
           SyncSendStatus 0 ''DONE'' 1700000000, SyncVerifyStatus 0,
           SyncClose 0, TpClose 0],
          None)"
  using Push_steps [where p = "peer_upto 5 (Error ''EOF'')" and d = emulator and tr = "[]"
      and source = 7 and remotePath = "''/sdcard/a.txt''" and mode = "[]"
      and modification = "\<lparr>wall = 0, ext = 63835596800, loc = None\<rparr>",
      OF _ refl refl refl refl refl refl]
    Push_steps [where p = "peer_upto 9 (Error ''EOF'')" and d = emulator and tr = "[]"
      and source = 7 and remotePath = "''/sdcard/a.txt''" and mode = "[0x1ED]"
      and modification = "\<lparr>wall = 0, ext = 63835596800, loc = None\<rparr>",
      OF _ refl refl refl refl refl refl]
  by (simp add: peer_upto_def emulator_def handshake_def fmt_d_def fmt_nat.simps
      DefaultFileMode_def Unix_def Time_sec_def unixToInternal_def)

subsection \<open>List\<close>

lemma List_listing:
  assumes "succeed p tr (handshake d tp @ [TpCreateSyncTransport tp, SyncSend tp ''LIST'' remotePath])"
    and "tp = length tr"
    and "listing = tr @ handshake d tp @ [TpCreateSyncTransport tp, SyncSend tp ''LIST'' remotePath]"
  shows "List p d remotePath tr =
     (case List_loop p tp listing [] of
        None \<Rightarrow> None
      | Some (tr2, devFileInfos, err) \<Rightarrow>
          Some (tr2 @ [SyncClose tp, TpClose tp], Some devFileInfos, err))"
proof -
  have hs: "succeed p tr (handshake d (length tr))"
    and sync: "reply_err p (tr @ handshake d (length tr) @ [TpCreateSyncTransport (length tr)]) = None"
    and send: "reply_err p (tr @ handshake d (length tr)
                 @ [TpCreateSyncTransport (length tr), SyncSend (length tr) ''LIST'' remotePath]) = None"
    using assms(1,2) by (simp_all add: handshake_def)
  show ?thesis
    using sync send
    by (simp add: List_ok [OF hs] List_tp_def List_sync_def Let_def assms(2,3)
        split: option.split)
qed

text \<open>
  Claim C2. When the peer delivers the entries \<open>es\<close>, none of them all-zero, and then
  an all-zero entry, \<open>List\<close> returns exactly \<open>es\<close>, in the order delivered and without
  the all-zero entry, and it has read one entry more than it returns: it stops at the
  first all-zero entry, whatever the peer would deliver after it.
\<close>

theorem List_returns_entries_in_order:
  assumes "succeed p tr (handshake d tp @ [TpCreateSyncTransport tp, SyncSend tp ''LIST'' remotePath])"
    and "tp = length tr"
    and "listing = tr @ handshake d tp @ [TpCreateSyncTransport tp, SyncSend tp ''LIST'' remotePath]"
    and "\<forall>i<length es.
           reply_dent p (listing @ replicate (Suc i) (SyncReadDirectoryEntry tp)) = (es ! i, None)"
    and "DeviceFileInfo_zero \<notin> set es"
    and "reply_dent p (listing @ replicate (Suc (length es)) (SyncReadDirectoryEntry tp))
           = (DeviceFileInfo_zero, None)"
  shows "List p d remotePath tr =
     Some (listing @ replicate (Suc (length es)) (SyncReadDirectoryEntry tp)
             @ [SyncClose tp, TpClose tp],
           Some es, None)"
proof -
  have "List_loop p tp listing []
          = Some (listing @ replicate (Suc (length es)) (SyncReadDirectoryEntry tp), [] @ es, None)"
    using assms(4-6) by (intro List_loop_drain) simp_all
  then show ?thesis
    by (simp add: List_listing [OF assms(1-3)])
qed

text \<open>
  The peer delivers \<open>a.txt\<close>, \<open>b\<close>, the all-zero entry, and would deliver more.
\<close>

theorem List_returns_entries_in_order_witness:
  "succeed (peer_upto 20 (Error ''EOF'')) []
     (handshake emulator 0 @ [TpCreateSyncTransport 0, SyncSend 0 ''LIST'' ''/sdcard''])
   \<and> reply_dent (peer_upto 20 (Error ''EOF''))
        [NewTransport ''localhost:5037'', TpSend 0 ''host:transport:emulator-5554'',
         TpVerifyResponse 0, TpCreateSyncTransport 0, SyncSend 0 ''LIST'' ''/sdcard'',
         SyncReadDirectoryEntry 0, SyncReadDirectoryEntry 0, SyncReadDirectoryEntry 0,
         SyncReadDirectoryEntry 0] = (entry_b, None)
   \<and> DeviceFileInfo_zero \<notin> set [entry_a, entry_b]
   \<and> List (peer_upto 20 (Error ''EOF'')) emulator ''/sdcard'' []
       = Some ([NewTransport ''localhost:5037'', TpSend 0 ''host:transport:emulator-5554'',
                TpVerifyResponse 0, TpCreateSyncTransport 0, SyncSend 0 ''LIST'' ''/sdcard'',
                SyncReadDirectoryEntry 0, SyncReadDirectoryEntry 0, SyncReadDirectoryEntry 0,
                SyncClose 0, TpClose 0],
               Some [entry_a, entry_b], None)"
proof -
  let ?p = "peer_upto 20 (Error ''EOF'')"
  let ?listing = "[] @ handshake emulator (length ([] :: event list))
                    @ [TpCreateSyncTransport (length ([] :: event list)),
                       SyncSend (length ([] :: event list)) ''LIST'' ''/sdcard'']"
  have session: "succeed ?p []
      (handshake emulator (length ([] :: event list))
         @ [TpCreateSyncTransport (length ([] :: event list)),
            SyncSend (length ([] :: event list)) ''LIST'' ''/sdcard''])"
    by (simp add: peer_upto_def handshake_def)
  have entries: "\<forall>i<length [entry_a, entry_b].
      reply_dent ?p (?listing @ replicate (Suc i) (SyncReadDirectoryEntry (length ([] :: event list))))
        = ([entry_a, entry_b] ! i, None)"
    by (auto simp: less_Suc_eq peer_upto_def handshake_def)
  have nonzero: "DeviceFileInfo_zero \<notin> set [entry_a, entry_b]"
    by (simp add: entry_a_def entry_b_def DeviceFileInfo_zero_def)
  have sentinel: "reply_dent ?p
      (?listing @ replicate (Suc (length [entry_a, entry_b]))
                    (SyncReadDirectoryEntry (length ([] :: event list))))
        = (DeviceFileInfo_zero, None)"
    by (simp add: peer_upto_def handshake_def)
  have more: "reply_dent ?p
        [NewTransport ''localhost:5037'', TpSend 0 ''host:transport:emulator-5554'',
         TpVerifyResponse 0, TpCreateSyncTransport 0, SyncSend 0 ''LIST'' ''/sdcard'',
         SyncReadDirectoryEntry 0, SyncReadDirectoryEntry 0, SyncReadDirectoryEntry 0,
         SyncReadDirectoryEntry 0] = (entry_b, None)"
    by (simp add: peer_upto_def)
  from List_returns_entries_in_order [OF session refl refl entries nonzero sentinel]
    session nonzero more
  show ?thesis
    by (simp add: handshake_def emulator_def fmt_d_def fmt_nat.simps)
qed

text \<open>
  When a read fails after the entries \<open>es\<close>, the loop of \<open>List\<close> ends with the entries
  appended so far and \<open>List\<close> returns them beside the error.
\<close>

lemma List_read_error:
  assumes "succeed p tr (handshake d tp @ [TpCreateSyncTransport tp, SyncSend tp ''LIST'' remotePath])"
    and "tp = length tr"
    and "listing = tr @ handshake d tp @ [TpCreateSyncTransport tp, SyncSend tp ''LIST'' remotePath]"
    and "\<forall>i<length es.
           reply_dent p (listing @ replicate (Suc i) (SyncReadDirectoryEntry tp)) = (es ! i, None)"
    and "DeviceFileInfo_zero \<notin> set es"
    and "reply_dent p (listing @ replicate (Suc (length es)) (SyncReadDirectoryEntry tp))
           = (entry, Some e)"
  shows "List p d remotePath tr =
     Some (listing @ replicate (Suc (length es)) (SyncReadDirectoryEntry tp)
             @ [SyncClose tp, TpClose tp],
           Some es, Some e)"
proof -
  have "List_loop p tp listing []
          = Some (listing @ replicate (Suc (length es)) (SyncReadDirectoryEntry tp), [] @ es, Some e)"
    using assms(4-6) by (intro List_loop_drain) simp_all
  then show ?thesis
    by (simp add: List_listing [OF assms(1-3)])
qed

text \<open>
  Claim C1 says that \<open>List\<close> returns no entries when a \<open>ReadDirectoryEntry\<close> call fails
  partway through the listing. The code does otherwise: here the peer delivers
  \<open>a.txt\<close> and the second read fails; \<open>List\<close> returns the one entry read, and the error.
\<close>

theorem List_truncated_on_read_error:
  "List (peer_upto 6 (Error ''EOF'')) emulator ''/sdcard'' []
     = Some ([NewTransport ''localhost:5037'', TpSend 0 ''host:transport:emulator-5554'',
              TpVerifyResponse 0, TpCreateSyncTransport 0, SyncSend 0 ''LIST'' ''/sdcard'',
              SyncReadDirectoryEntry 0, SyncReadDirectoryEntry 0,
              SyncClose 0, TpClose 0],
             Some [entry_a], Some (Error ''EOF''))"
proof -
  let ?p = "peer_upto 6 (Error ''EOF'')"
  let ?listing = "[] @ handshake emulator (length ([] :: event list))
                    @ [TpCreateSyncTransport (length ([] :: event list)),
                       SyncSend (length ([] :: event list)) ''LIST'' ''/sdcard'']"
  have session: "succeed ?p []
      (handshake emulator (length ([] :: event list))
         @ [TpCreateSyncTransport (length ([] :: event list)),
            SyncSend (length ([] :: event list)) ''LIST'' ''/sdcard''])"
    by (simp add: peer_upto_def handshake_def)
  have entries: "\<forall>i<length [entry_a].
      reply_dent ?p (?listing @ replicate (Suc i) (SyncReadDirectoryEntry (length ([] :: event list))))
        = ([entry_a] ! i, None)"
    by (simp add: peer_upto_def handshake_def)
  have nonzero: "DeviceFileInfo_zero \<notin> set [entry_a]"
    by (simp add: entry_a_def DeviceFileInfo_zero_def)
  have failure: "reply_dent ?p
      (?listing @ replicate (Suc (length [entry_a]))
                    (SyncReadDirectoryEntry (length ([] :: event list))))
        = (DeviceFileInfo_zero, Some (Error ''EOF''))"
    by (simp add: peer_upto_def handshake_def)
  from List_read_error [OF session refl refl entries nonzero failure]
  show ?thesis
    by (simp add: handshake_def emulator_def fmt_d_def fmt_nat.simps)
qed

subsection \<open>Empty shell commands\<close>

lemma IsSpace_cases:
  assumes "IsSpace r"
  shows "r \<in> {0x09, 0x0A, 0x0B, 0x0C, 0x0D, 0x20, 0x85, 0xA0, 0x1680,
          0x2000, 0x2001, 0x2002, 0x2003, 0x2004, 0x2005, 0x2006, 0x2007, 0x2008, 0x2009, 0x200A,
          0x2028, 0x2029, 0x202F, 0x205F, 0x3000}"
proof -
  have range: "r \<in> {0x2000, 0x2001, 0x2002, 0x2003, 0x2004, 0x2005, 0x2006, 0x2007, 0x2008,
                     0x2009, 0x200A}"
    if "0x2000 \<le> r" and "r \<le> 0x200A"
    using that by (simp only: insert_iff empty_iff) presburger
  from assms show ?thesis
    using range by (auto simp: IsSpace_def split: if_splits)
qed

text \<open>Decoding finds each whitespace character at the head of a string that starts with it.\<close>

lemma DecodeRuneInString_space:
  "IsSpace r \<Longrightarrow> DecodeRuneInString (EncodeRune r @ rest) = (r, length (EncodeRune r))"
  by (drule IsSpace_cases, elim insertE emptyE;
      simp add: EncodeRune_def DecodeRuneInString_def RuneSelf_def utf8_first_def Let_def)

lemma EncodeRune_space_nonempty:
  "IsSpace r \<Longrightarrow> EncodeRune r \<noteq> []"
  by (drule IsSpace_cases, elim insertE emptyE; simp add: EncodeRune_def)

text \<open>An ASCII whitespace character is one byte of the table \<open>asciiSpace\<close>; any other
  whitespace character starts with a byte that is not ASCII.\<close>

lemma EncodeRune_space_head:
  assumes "IsSpace r"
  shows "(\<exists>c. EncodeRune r = [c] \<and> byte c < RuneSelf \<and> asciiSpace (byte c))
       \<or> (\<exists>c cs. EncodeRune r = c # cs \<and> byte c \<ge> RuneSelf)"
  using IsSpace_cases [OF assms]
  by (elim insertE emptyE; simp add: EncodeRune_def RuneSelf_def asciiSpace_def)

lemma indexFunc_loop_spaces:
  "\<forall>r\<in>set rs. IsSpace r \<Longrightarrow>
     indexFunc_loop (pre @ concat (map EncodeRune rs)) IsSpace False (length pre) = - 1"
proof (induction rs arbitrary: pre)
  case Nil
  show ?case
    by (subst indexFunc_loop.simps) simp
next
  case (Cons r rs)
  then have r: "IsSpace r" and rs: "\<forall>r\<in>set rs. IsSpace r"
    by simp_all
  let ?rest = "concat (map EncodeRune rs)"
  have decode: "DecodeRuneInString (drop (length pre) (pre @ concat (map EncodeRune (r # rs))))
                  = (r, length (EncodeRune r))"
    using DecodeRuneInString_space [OF r, of ?rest] by simp
  have inside: "length pre < length (pre @ concat (map EncodeRune (r # rs)))"
    using EncodeRune_space_nonempty [OF r] by simp
  have "indexFunc_loop (pre @ concat (map EncodeRune (r # rs))) IsSpace False (length pre)
          = indexFunc_loop (pre @ concat (map EncodeRune (r # rs))) IsSpace False
              (length pre + length (EncodeRune r))"
    using inside decode r by (subst indexFunc_loop.simps) simp
  also have "\<dots> = indexFunc_loop ((pre @ EncodeRune r) @ ?rest) IsSpace False
                     (length (pre @ EncodeRune r))"
    by simp
  also have "\<dots> = - 1"
    using rs by (rule Cons.IH)
  finally show ?case .
qed

lemma TrimFunc_spaces:
  assumes "\<forall>r\<in>set rs. IsSpace r"
  shows "TrimFunc (concat (map EncodeRune rs)) IsSpace = []"
proof -
  have "indexFunc (concat (map EncodeRune rs)) IsSpace False = - 1"
    using indexFunc_loop_spaces [OF assms, of "[]"] by (simp add: indexFunc_def)
  then have "TrimLeftFunc (concat (map EncodeRune rs)) IsSpace = []"
    by (simp add: TrimLeftFunc_def)
  then show ?thesis
    by (simp add: TrimFunc_def TrimRightFunc_def)
qed

lemma TrimSpace_spaces:
  "\<forall>r\<in>set rs. IsSpace r \<Longrightarrow> TrimSpace (concat (map EncodeRune rs)) = []"
proof (induction rs)
  case Nil
  show ?case
    by (simp add: TrimSpace_def)
next
  case (Cons r rs)
  then have r: "IsSpace r" and rs: "\<forall>r\<in>set rs. IsSpace r"
    by simp_all
  from EncodeRune_space_head [OF r] show ?case
  proof (elim disjE exE conjE)
    fix c
    assume "EncodeRune r = [c]" and "byte c < RuneSelf" and "asciiSpace (byte c)"
    then have "TrimSpace (concat (map EncodeRune (r # rs))) = TrimSpace (concat (map EncodeRune rs))"
      by (simp add: TrimSpace_def)
    with rs show ?thesis
      by (simp add: Cons.IH)
  next
    fix c cs
    assume enc: "EncodeRune r = c # cs" and "byte c \<ge> RuneSelf"
    then have "TrimSpace (concat (map EncodeRune (r # rs)))
                 = TrimFunc (concat (map EncodeRune (r # rs))) IsSpace"
      by (simp add: TrimSpace_def)
    also have "\<dots> = []"
      using Cons.prems by (rule TrimFunc_spaces)
    finally show ?thesis .
  qed
qed

text \<open>
  Claim C9. When the command line, that is \<open>cmd\<close> alone or \<open>cmd\<close>, a space and the
  arguments joined by spaces, is empty or consists only of whitespace characters (\<open>rs\<close>,
  each of them whitespace), \<open>RunShellCommandWithBytes\<close> returns the error
  "adb shell: command cannot be empty" with a nil result, and \<open>RunShellCommand\<close> the same
  error with the empty string; neither performs any call: the trace is unchanged.
\<close>

theorem RunShellCommand_rejects_blank:
  assumes "\<forall>r\<in>set rs. IsSpace r"
    and "(if length args > 0 then cmd @ '' '' @ Join args '' '' else cmd)
           = concat (map EncodeRune rs)"
  shows "RunShellCommandWithBytes p d cmd args tr
           = (tr, None, Some (Error ''adb shell: command cannot be empty''))
       \<and> RunShellCommand p d cmd args tr
           = (tr, [], Some (Error ''adb shell: command cannot be empty''))"
  using TrimSpace_spaces [OF assms(1)] assms(2)
  by (simp add: RunShellCommand_def RunShellCommandWithBytes_def Let_def)

text \<open>
  A space as command with a tab and a no-break space (U+00A0, two bytes) as arguments;
  and the empty command without arguments.
\<close>

theorem RunShellCommand_rejects_blank_witness:
  "IsSpace 0x20 \<and> IsSpace 0x09 \<and> IsSpace 0xA0
   \<and> '' '' @ '' '' @ Join [[CHR 0x09], [CHR 0xC2, CHR 0xA0]] '' ''
       = concat (map EncodeRune [0x20, 0x20, 0x09, 0x20, 0xA0])
   \<and> RunShellCommandWithBytes (peer_upto 20 (Error ''EOF'')) emulator '' ''
         [[CHR 0x09], [CHR 0xC2, CHR 0xA0]] []
       = ([], None, Some (Error ''adb shell: command cannot be empty''))
   \<and> RunShellCommand (peer_upto 20 (Error ''EOF'')) emulator [] [] []
       = ([], [], Some (Error ''adb shell: command cannot be empty''))"
proof -
  have char: "c = char_of n \<longleftrightarrow> take_bit 8 n = of_char c" for c and n :: int
    using char_of_eq_iff [of n c] by auto
  have spaces: "\<forall>r\<in>set [0x20, 0x20, 0x09, 0x20, 0xA0]. IsSpace r"
    by (simp add: IsSpace_def)
  have line: "(if length [[CHR 0x09], [CHR 0xC2, CHR 0xA0]] > 0
               then '' '' @ '' '' @ Join [[CHR 0x09], [CHR 0xC2, CHR 0xA0]] '' '' else '' '')
                = concat (map EncodeRune [0x20, 0x20, 0x09, 0x20, 0xA0])"
    by (simp add: EncodeRune_def char)
  have none: "(if length ([] :: string list) > 0 then [] @ '' '' @ Join [] '' '' else [])
                = concat (map EncodeRune [])"
    by simp
  from RunShellCommand_rejects_blank [OF spaces line]
    RunShellCommand_rejects_blank [of "[]", OF _ none] spaces line
  show ?thesis
    by (simp add: IsSpace_def)
qed

end
